theory Spec2Isabelle
  imports Main "HOL-Library.AList"
begin

section \<open>Strings\<close>

text \<open>
  Strings are byte lists. The three JavaScript string methods that \<^verbatim>\<open>server.js\<close> calls are
  \<^verbatim>\<open>startsWith\<close>, \<^verbatim>\<open>includes\<close> and \<^verbatim>\<open>toLowerCase\<close>; \<^verbatim>\<open>tagName\<close> of the DOM
  needs the upper-case conversion. All patterns of the source are ASCII, so searching bytes
  and searching UTF-16 code units agree.
\<close>

definition startsWith :: "string \<Rightarrow> string \<Rightarrow> bool" where
  "startsWith s p = (take (length p) s = p)"

fun includes_str :: "string \<Rightarrow> string \<Rightarrow> bool" where
  "includes_str [] p = (p = [])"
| "includes_str (c # s) p = (startsWith (c # s) p \<or> includes_str s p)"

definition toUpperChar :: "char \<Rightarrow> char" where
  "toUpperChar c =
     (case map_of (zip ''abcdefghijklmnopqrstuvwxyz'' ''ABCDEFGHIJKLMNOPQRSTUVWXYZ'') c of
        None \<Rightarrow> c
      | Some u \<Rightarrow> u)"

definition toUpperCase :: "string \<Rightarrow> string" where
  "toUpperCase s = map toUpperChar s"

definition toLowerChar :: "char \<Rightarrow> char" where
  "toLowerChar c =
     (case map_of (zip ''ABCDEFGHIJKLMNOPQRSTUVWXYZ'' ''abcdefghijklmnopqrstuvwxyz'') c of
        None \<Rightarrow> c
      | Some l \<Rightarrow> l)"

definition toLowerCase :: "string \<Rightarrow> string" where
  "toLowerCase s = map toLowerChar s"

section \<open>The document model\<close>

text \<open>
  The part of the DOM that \<^verbatim>\<open>modifyHtml\<close> touches. A document is the list of the child
  nodes of the Document node. An element carries whether it is in the HTML namespace (the
  parser also creates SVG and MathML elements), its local name, its attributes in order and
  its children. Attribute names are unique within an element; all names the source reads or
  writes are lower case. The properties and methods of an element that the source uses
  (\<^verbatim>\<open>tagName\<close>, \<^verbatim>\<open>getAttribute\<close>, \<^verbatim>\<open>setAttribute\<close>, \<^verbatim>\<open>textContent\<close>) are those of the
  DOM.
\<close>

datatype node =
    Element (isHTML: bool) (localName: string) (attributes: "(string \<times> string) list")
      (childNodes: "node list")
  | Text string
  | Comment string
  | DocumentType string

type_synonym document = "node list"

text \<open>\<^verbatim>\<open>el.tagName\<close>: upper case for an HTML element, the name as it is otherwise.\<close>

fun tagName :: "node \<Rightarrow> string" where
  "tagName (Element h ln as cs) = (if h then toUpperCase ln else ln)"
| "tagName n = []"

fun getAttribute :: "node \<Rightarrow> string \<Rightarrow> string option" where
  "getAttribute (Element h ln as cs) a = map_of as a"
| "getAttribute n a = None"

text \<open>\<^verbatim>\<open>el.setAttribute\<close> replaces the value in place, or appends a new attribute.\<close>

fun setAttribute :: "node \<Rightarrow> string \<Rightarrow> string \<Rightarrow> node" where
  "setAttribute (Element h ln as cs) a v = Element h ln (AList.update a v as) cs"
| "setAttribute n a v = n"

text \<open>
  \<^verbatim>\<open>el.textContent\<close> of an element: the data of its Text descendants, in order. Comments
  and doctypes contribute nothing.
\<close>

fun textContent :: "node \<Rightarrow> string" where
  "textContent (Element h ln as cs) = concat (map textContent cs)"
| "textContent (Text s) = s"
| "textContent (Comment s) = []"
| "textContent (DocumentType s) = []"

text \<open>Assigning \<^verbatim>\<open>el.textContent\<close> replaces all children by one Text node (none for '''').\<close>

fun setTextContent :: "node \<Rightarrow> string \<Rightarrow> node" where
  "setTextContent (Element h ln as cs) s = Element h ln as (if s = [] then [] else [Text s])"
| "setTextContent n s = n"

text \<open>
  The selectors of the source: \<^verbatim>\<open>tag[attr]\<close> and \<^verbatim>\<open>tag\<close>. The tags of the source are
  lower case, and a type selector is compared with the local name.
\<close>

datatype selector = TagAttr string string | Tag string

fun matches :: "selector \<Rightarrow> node \<Rightarrow> bool" where
  "matches (TagAttr t a) (Element h ln as cs) = (ln = t \<and> map_of as a \<noteq> None)"
| "matches (Tag t) (Element h ln as cs) = (ln = t)"
| "matches sel n = False"

text \<open>
  What \<^verbatim>\<open>querySelectorAll(sel).forEach(cb)\<close> does to one node of the document and the
  nodes below it, for a callback that mutates only the element it is given. The list is
  static: children that the callback put in place of the old ones were not in it and are
  not visited, and the old ones left the document.
\<close>

fun forEachMatch :: "selector \<Rightarrow> (node \<Rightarrow> node) \<Rightarrow> node \<Rightarrow> node" where
  "forEachMatch sel cb (Element h ln as cs) =
     (case (if matches sel (Element h ln as cs) then cb (Element h ln as cs)
            else Element h ln as cs) of
        Element h' ln' as' cs' \<Rightarrow>
          Element h' ln' as' (if cs' = cs then map (forEachMatch sel cb) cs else cs')
      | n \<Rightarrow> n)"
| "forEachMatch sel cb n = n"

text \<open>\<^verbatim>\<open>querySelector(sel)\<close> is not null.\<close>

fun hasMatch :: "selector \<Rightarrow> node \<Rightarrow> bool" where
  "hasMatch sel (Element h ln as cs) =
     (matches sel (Element h ln as cs) \<or> (\<exists>c \<in> set cs. hasMatch sel c))"
| "hasMatch sel n = False"

text \<open>Nodes are addressed by the path of child indices from the Document node.\<close>

fun nodeAt :: "node list \<Rightarrow> nat list \<Rightarrow> node option" where
  "nodeAt ns [] = None"
| "nodeAt ns (i # p) =
     (if i < length ns
      then (if p = [] then Some (ns ! i)
            else (case ns ! i of Element h ln as cs \<Rightarrow> nodeAt cs p | n \<Rightarrow> None))
      else None)"

text \<open>
  \<^verbatim>\<open>parent.insertBefore(b, parent.firstChild)\<close> for the element at the path \<open>q\<close>: \<open>b\<close>
  becomes its first child. \<open>None\<close> when the path does not lead to an element.
\<close>

fun insertFirstChild :: "nat list \<Rightarrow> node \<Rightarrow> node list \<Rightarrow> node list option" where
  "insertFirstChild [] b ns = None"
| "insertFirstChild (i # q) b ns =
     (if i < length ns
      then (case ns ! i of
              Element h ln as cs \<Rightarrow>
                (if q = [] then Some (ns[i := Element h ln as (b # cs)])
                 else map_option (\<lambda>cs'. ns[i := Element h ln as cs']) (insertFirstChild q b cs))
            | n \<Rightarrow> None)
      else None)"

fun firstIndex :: "('a \<Rightarrow> bool) \<Rightarrow> 'a list \<Rightarrow> nat option" where
  "firstIndex P [] = None"
| "firstIndex P (x # xs) = (if P x then Some 0 else map_option Suc (firstIndex P xs))"

section \<open>The libraries the server calls\<close>

text \<open>
  A parsed \<^verbatim>\<open>URL\<close> object, as far as the source reads it: \<^verbatim>\<open>.href\<close> and \<^verbatim>\<open>.origin\<close>.
\<close>

record url =
  href :: string
  origin :: string

text \<open>
  What \<^verbatim>\<open>fetch(targetUrl, init)\<close> is given and what it resolves to. The headers of the
  upstream response are listed as \<^verbatim>\<open>response.headers.forEach\<close> enumerates them (node-fetch
  keeps one entry per lower-cased name); \<^verbatim>\<open>buffer\<close> is the outcome of
  \<^verbatim>\<open>await response.buffer()\<close>.
\<close>

record fetch_init =
  init_method :: string
  init_headers :: "(string \<times> string) list"
  init_redirect :: string

record upstream =
  status :: nat
  upstream_headers :: "(string \<times> string) list"
  buffer :: "string + string"

text \<open>
  The library functions are parameters of the model. A call that throws (or a promise that
  rejects) returns \<open>Inl\<close> of the error's \<^verbatim>\<open>message\<close>.
  \<^item> \<open>URL_new input base\<close> is \<^verbatim>\<open>new URL(input, base)\<close>, \<open>base = None\<close> for the one-argument form;
  \<^item> \<open>fetch\<close> is node-fetch;
  \<^item> \<open>JSDOM_new html url\<close> is the document of \<^verbatim>\<open>new JSDOM(html, { url })\<close>;
  \<^item> \<open>serialize\<close> is \<^verbatim>\<open>dom.serialize()\<close>;
  \<^item> \<open>decode\<close> is \<^verbatim>\<open>new TextDecoder('utf-8').decode\<close>;
  \<^item> \<open>namedItem doc name\<close> is the named property \<open>name\<close> of the Document object, for the
    document as it is at the moment of the access.

  The Document object has named properties, and they come before its built-in ones: when
  an element of the page contributes the name (\<^verbatim>\<open><img name="querySelectorAll">\<close>,
  \<^verbatim>\<open><form name="head">\<close>), \<^verbatim>\<open>document[name]\<close> is that element, or a collection or a
  window when it is not a single element, and no longer the method or the accessor of the
  DOM. \<open>namedItem\<close> is \<open>None\<close> when no element contributes the name. An element is given
  by its path.
\<close>

datatype named = NamedElement "nat list" | NamedOther

record env =
  URL_new :: "string \<Rightarrow> string option \<Rightarrow> string + url"
  fetch :: "string \<Rightarrow> fetch_init \<Rightarrow> string + upstream"
  JSDOM_new :: "string \<Rightarrow> string \<Rightarrow> string + document"
  serialize :: "document \<Rightarrow> string + string"
  decode :: "string \<Rightarrow> string"
  namedItem :: "document \<Rightarrow> string \<Rightarrow> named option"

section \<open>modifyHtml\<close>

definition PROXY_PREFIX :: string where
  "PROXY_PREFIX = ''/proxy/''"

definition linkSelectors :: "selector list" where
  "linkSelectors =
     [TagAttr ''a'' ''href'',
      TagAttr ''link'' ''href'',
      TagAttr ''script'' ''src'',
      TagAttr ''img'' ''src'',
      TagAttr ''iframe'' ''src'',
      TagAttr ''embed'' ''src'',
      TagAttr ''object'' ''data'',
      TagAttr ''source'' ''src'',
      TagAttr ''video'' ''src'',
      TagAttr ''audio'' ''src'',
      TagAttr ''form'' ''action'']"

text \<open>Lines 51-52: the attribute the callback reads and writes.\<close>

definition attrOf :: "node \<Rightarrow> string" where
  "attrOf el =
     (let attr = (if tagName el = ''A'' \<or> tagName el = ''FORM'' then ''href'' else ''src'')
      in if tagName el = ''FORM'' then ''action'' else attr)"

text \<open>Lines 55-61: the values for which the callback returns at once.\<close>

definition skipped :: "string option \<Rightarrow> bool" where
  "skipped originalValue =
     (case originalValue of
        None \<Rightarrow> True
      | Some v \<Rightarrow>
          v = [] \<or> startsWith v ''#'' \<or> startsWith v ''mailto:'' \<or> startsWith v ''tel:'' \<or>
          startsWith v ''javascript:'')"

text \<open>
  Lines 50-78, the callback of the link loop. \<open>url\<close> is \<^verbatim>\<open>new URL(targetUrl)\<close> of line 32.
  Both \<^verbatim>\<open>new URL\<close> calls stand inside the \<^verbatim>\<open>try\<close>, before the first \<^verbatim>\<open>setAttribute\<close>: when
  one throws, the element is as it was (the \<^verbatim>\<open>catch\<close> only logs).
\<close>

definition rewriteElement :: "env \<Rightarrow> string \<Rightarrow> url \<Rightarrow> node \<Rightarrow> node" where
  "rewriteElement e targetUrl url el =
     (let attr = attrOf el; originalValue = getAttribute el attr in
      if skipped originalValue then el
      else case originalValue of
        None \<Rightarrow> el
      | Some v \<Rightarrow>
         (case URL_new e v (Some targetUrl) of
            Inl err \<Rightarrow> el
          | Inr resolved \<Rightarrow>
             (let resolvedUrl = href resolved in
              case URL_new e resolvedUrl None of
                Inl err \<Rightarrow> el
              | Inr reparsed \<Rightarrow>
                 (let resolvedOrigin = origin reparsed;
                      el' = (if resolvedOrigin \<noteq> origin url
                             then setAttribute (setAttribute el ''target'' ''_blank'')
                                    ''rel'' ''noopener noreferrer''
                             else el)
                  in setAttribute el' attr (PROXY_PREFIX @ resolvedUrl)))))"

text \<open>
  \<^verbatim>\<open>document.querySelectorAll(sel).forEach(cb)\<close>. When an element of the page shadows
  \<^verbatim>\<open>querySelectorAll\<close>, the call throws a TypeError.
\<close>

definition querySelectorAll_forEach ::
  "env \<Rightarrow> selector \<Rightarrow> (node \<Rightarrow> node) \<Rightarrow> document \<Rightarrow> string + document" where
  "querySelectorAll_forEach e sel cb doc =
     (case namedItem e doc ''querySelectorAll'' of
        Some shadow \<Rightarrow> Inl ''document.querySelectorAll is not a function''
      | None \<Rightarrow> Inr (map (forEachMatch sel cb) doc))"

text \<open>
  Lines 49-79: one pass over the document for each selector, in the order of the list. An
  exception ends the loop.
\<close>

definition rewriteLinks :: "env \<Rightarrow> string \<Rightarrow> url \<Rightarrow> document \<Rightarrow> string + document" where
  "rewriteLinks e targetUrl url doc =
     foldl (\<lambda>state selector.
              case state of
                Inl err \<Rightarrow> Inl err
              | Inr d \<Rightarrow> querySelectorAll_forEach e selector (rewriteElement e targetUrl url) d)
       (Inr doc) linkSelectors"

text \<open>Lines 82-89. \<^verbatim>\<open>textContent\<close> of an element is never null.\<close>

definition isFrameBusting :: "string \<Rightarrow> bool" where
  "isFrameBusting content =
     (includes_str content ''top.location'' \<or> includes_str content ''frame busting'' \<or>
      includes_str content ''if (top != self)'')"

definition neutralizeScript :: "node \<Rightarrow> node" where
  "neutralizeScript script =
     (let content = textContent script in
      if isFrameBusting content then setTextContent script ''// Frame busting removed''
      else script)"

definition removeFrameBusting :: "env \<Rightarrow> document \<Rightarrow> string + document" where
  "removeFrameBusting e doc = querySelectorAll_forEach e (Tag ''script'') neutralizeScript doc"

text \<open>
  Lines 93-95: the new element, with \<^verbatim>\<open>href\<close> and \<^verbatim>\<open>target\<close> set through its
  properties.
\<close>

definition baseElement :: "url \<Rightarrow> node" where
  "baseElement url =
     setAttribute (setAttribute (Element True ''base'' [] []) ''href'' (origin url @ ''/''))
       ''target'' ''_blank''"

definition isHead :: "node \<Rightarrow> bool" where
  "isHead n = (case n of Element h ln as cs \<Rightarrow> h \<and> ln = ''head'' | _ \<Rightarrow> False)"

definition isElement :: "node \<Rightarrow> bool" where
  "isElement n = (case n of Element h ln as cs \<Rightarrow> True | _ \<Rightarrow> False)"

text \<open>
  The head element of the DOM: the first \<^verbatim>\<open>head\<close> child of the document element when
  that is an \<^verbatim>\<open>html\<close> element (both in the HTML namespace), else null.
\<close>

definition headPath :: "document \<Rightarrow> nat list option" where
  "headPath doc =
     (case firstIndex isElement doc of
        None \<Rightarrow> None
      | Some i \<Rightarrow>
          (case doc ! i of
             Element h ln as cs \<Rightarrow>
               (if h \<and> ln = ''html'' then map_option (\<lambda>j. [i, j]) (firstIndex isHead cs)
                else None)
           | n \<Rightarrow> None))"

text \<open>
  \<^verbatim>\<open>document.head\<close> as line 96 uses it, the receiver of \<^verbatim>\<open>insertBefore\<close>: the element of
  the page that shadows \<^verbatim>\<open>head\<close> when there is one, else the head element. The source
  throws a TypeError when it is null, and when it is a collection or a window, which have
  no \<^verbatim>\<open>insertBefore\<close>.
\<close>

definition document_head :: "env \<Rightarrow> document \<Rightarrow> string + nat list" where
  "document_head e doc =
     (case namedItem e doc ''head'' of
        None \<Rightarrow>
          (case headPath doc of
             None \<Rightarrow> Inl ''Cannot read properties of null (reading 'insertBefore')''
           | Some q \<Rightarrow> Inr q)
      | Some (NamedElement q) \<Rightarrow> Inr q
      | Some NamedOther \<Rightarrow> Inl ''document.head.insertBefore is not a function'')"

text \<open>
  Lines 92-97. \<^verbatim>\<open>document.querySelector\<close> and \<^verbatim>\<open>document.createElement\<close> throw when
  an element of the page shadows them. The new element goes before the first child of
  \<^verbatim>\<open>document.head\<close>.
\<close>

definition addBase :: "env \<Rightarrow> url \<Rightarrow> document \<Rightarrow> string + document" where
  "addBase e url doc =
     (case namedItem e doc ''querySelector'' of
        Some shadow \<Rightarrow> Inl ''document.querySelector is not a function''
      | None \<Rightarrow>
          if \<not> (\<exists>n \<in> set doc. hasMatch (Tag ''base'') n)
          then (case namedItem e doc ''createElement'' of
                  Some shadow \<Rightarrow> Inl ''document.createElement is not a function''
                | None \<Rightarrow>
                    (let base = baseElement url in
                     case document_head e doc of
                       Inl err \<Rightarrow> Inl err
                     | Inr q \<Rightarrow>
                         (case insertFirstChild q base doc of
                            None \<Rightarrow> Inl ''document.head.insertBefore is not a function''
                          | Some doc' \<Rightarrow> Inr doc')))
          else Inr doc)"

text \<open>Lines 32-97, on the parsed document. \<open>Inl\<close> is an exception.\<close>

definition modifyDocument :: "env \<Rightarrow> string \<Rightarrow> document \<Rightarrow> string + document" where
  "modifyDocument e targetUrl document =
     (case URL_new e targetUrl None of
        Inl err \<Rightarrow> Inl err
      | Inr url \<Rightarrow>
          (case rewriteLinks e targetUrl url document of
             Inl err \<Rightarrow> Inl err
           | Inr linked \<Rightarrow>
               (case removeFrameBusting e linked of
                  Inl err \<Rightarrow> Inl err
                | Inr rewritten \<Rightarrow> addBase e url rewritten)))"

text \<open>Lines 29-100. \<open>Inl\<close> is an exception leaving \<^verbatim>\<open>modifyHtml\<close>.\<close>

definition modifyHtml :: "env \<Rightarrow> string \<Rightarrow> string \<Rightarrow> string + string" where
  "modifyHtml e html targetUrl =
     (case JSDOM_new e html targetUrl of
        Inl err \<Rightarrow> Inl err
      | Inr document \<Rightarrow>
          (case modifyDocument e targetUrl document of
             Inl err \<Rightarrow> Inl err
           | Inr document' \<Rightarrow> serialize e document'))"

section \<open>The proxy route\<close>

text \<open>
  The Express request and response, as far as the handler of \<^verbatim>\<open>/proxy/*\<close> uses them.
  \<open>params0\<close> is \<^verbatim>\<open>req.params[0]\<close>; the two header fields are \<^verbatim>\<open>req.headers.accept\<close> and
  \<^verbatim>\<open>req.headers['accept-language']\<close>, \<open>None\<close> when undefined.
\<close>

record request =
  req_method :: string
  params0 :: string
  accept :: "string option"
  accept_language :: "string option"

text \<open>
  The response records what the handler asked of \<^verbatim>\<open>res\<close>: the status code, the headers
  with the values given to \<^verbatim>\<open>res.set\<close> (Node compares header names without case, so they
  are kept lower-cased) and what was sent last. What Express derives of its own (a charset
  appended to a Content-Type, the encoding of a Location, Content-Length, ETag and the
  freshness check of \<^verbatim>\<open>res.send\<close>) is not part of the record.
\<close>

datatype payload = Body string | RedirectTo string

record response =
  statusCode :: nat
  headers :: "(string \<times> string) list"
  sent :: "payload option"

definition res_set :: "string \<Rightarrow> string \<Rightarrow> response \<Rightarrow> response" where
  "res_set field val res = res\<lparr>headers := AList.update (toLowerCase field) val (headers res)\<rparr>"

definition res_status :: "nat \<Rightarrow> response \<Rightarrow> response" where
  "res_status code res = res\<lparr>statusCode := code\<rparr>"

definition res_send :: "string \<Rightarrow> response \<Rightarrow> response" where
  "res_send body res = res\<lparr>sent := Some (Body body)\<rparr>"

text \<open>\<^verbatim>\<open>res.redirect(url)\<close>: status 302 and a Location header.\<close>

definition res_redirect :: "string \<Rightarrow> response \<Rightarrow> response" where
  "res_redirect u res = (res_status 302 (res_set ''Location'' u res))\<lparr>sent := Some (RedirectTo u)\<rparr>"

text \<open>Lines 20-23: the middleware that runs before every route.\<close>

definition cacheMiddleware :: "response \<Rightarrow> response" where
  "cacheMiddleware res = res_set ''Cache-Control'' ''no-cache, no-store, must-revalidate'' res"

definition freshResponse :: response where
  "freshResponse = \<lparr>statusCode = 200, headers = [], sent = None\<rparr>"

text \<open>
  What a request leaves behind: the calls of \<^verbatim>\<open>fetch\<close> it made, in order, and the
  response.
\<close>

record outcome =
  fetched :: "(string \<times> fetch_init) list"
  reply :: response

text \<open>\<^verbatim>\<open>response.headers.get(name)\<close>: null (\<open>None\<close>) when the header is absent.\<close>

definition headers_get :: "(string \<times> string) list \<Rightarrow> string \<Rightarrow> string option" where
  "headers_get hs name = map_of hs (toLowerCase name)"

text \<open>\<^verbatim>\<open>x || d\<close> on a string that may be undefined or null: the empty string is falsy too.\<close>

definition orElse :: "string option \<Rightarrow> string \<Rightarrow> string" where
  "orElse x d = (case x of None \<Rightarrow> d | Some v \<Rightarrow> if v = [] then d else v)"

definition truthy :: "string option \<Rightarrow> bool" where
  "truthy x = (case x of None \<Rightarrow> False | Some v \<Rightarrow> v \<noteq> [])"

definition newline :: string where
  "newline = [CHR 0x0A]"

text \<open>Lines 175-225: the template literal around \<^verbatim>\<open>${error.message}\<close>.\<close>

definition errorPageBefore :: string where
  "errorPageBefore =
     concat
      ['''' @ newline,
       ''<!DOCTYPE html>'' @ newline,
       ''<html>'' @ newline,
       ''<head>'' @ newline,
       ''    <meta charset=\"UTF-8\">'' @ newline,
       ''    <title>Proxy Error</title>'' @ newline,
       ''    <style>'' @ newline,
       ''        body {'' @ newline,
       ''            font-family: Arial, sans-serif;'' @ newline,
       ''            background: linear-gradient(135deg, #1a1a2e, #16213e);'' @ newline,
       ''            color: white;'' @ newline,
       ''            min-height: 100vh;'' @ newline,
       ''            display: flex;'' @ newline,
       ''            align-items: center;'' @ newline,
       ''            justify-content: center;'' @ newline,
       ''            margin: 0;'' @ newline,
       ''        }'' @ newline,
       ''        .container {'' @ newline,
       ''            text-align: center;'' @ newline,
       ''            padding: 40px;'' @ newline,
       ''            background: rgba(255,255,255,0.1);'' @ newline,
       ''            border-radius: 16px;'' @ newline,
       ''            backdrop-filter: blur(10px);'' @ newline,
       ''            max-width: 500px;'' @ newline,
       ''        }'' @ newline,
       ''        h1 { color: #f9d423; margin-bottom: 20px; }'' @ newline,
       ''        p { color: #ccc; margin-bottom: 20px; line-height: 1.6; }'' @ newline,
       ''        .error { color: #ff4e50; font-family: monospace; margin: 20px 0; padding: 10px; background: rgba(255,78,80,0.2); border-radius: 8px; }'' @ newline,
       ''        a {'' @ newline,
       ''            display: inline-block;'' @ newline,
       ''            padding: 14px 28px;'' @ newline,
       ''            background: linear-gradient(90deg, #f9d423, #ff4e50);'' @ newline,
       ''            color: #1a1a2e;'' @ newline,
       ''            text-decoration: none;'' @ newline,
       ''            border-radius: 10px;'' @ newline,
       ''            font-weight: bold;'' @ newline,
       ''            transition: transform 0.2s;'' @ newline,
       ''        }'' @ newline,
       ''        a:hover { transform: scale(1.05); }'' @ newline,
       ''    </style>'' @ newline,
       ''</head>'' @ newline,
       ''<body>'' @ newline,
       ''    <div class=\"container\">'' @ newline,
       ''        <h1>Dogecoin Proxy Error</h1>'' @ newline,
       ''        <p>Could not access the requested website.</p>'' @ newline,
       ''        <div class=\"error\">'']"

definition errorPageAfter :: string where
  "errorPageAfter =
     concat
      [''</div>'' @ newline,
       ''        <a href=\"/\">Go Back Home</a>'' @ newline,
       ''    </div>'' @ newline,
       ''</body>'' @ newline,
       ''</html>'' @ newline,
       ''        '']"

definition errorPage :: "string \<Rightarrow> string" where
  "errorPage message = errorPageBefore @ message @ errorPageAfter"

text \<open>Lines 173-226, the \<^verbatim>\<open>catch\<close> of the handler.\<close>

definition proxyError :: "string \<Rightarrow> response \<Rightarrow> response" where
  "proxyError message res = res_send (errorPage message) (res_status 502 res)"

definition USER_AGENT :: string where
  "USER_AGENT = ''Mozilla/5.0 (Windows NT 10.0; Win64; x64) AppleWebKit/537.36 (KHTML, like Gecko) Chrome/120.0.0.0 Safari/537.36''"

text \<open>Lines 122-131: the second argument of \<^verbatim>\<open>fetch\<close>.\<close>

definition fetchInit :: "request \<Rightarrow> url \<Rightarrow> fetch_init" where
  "fetchInit req url =
     \<lparr>init_method = req_method req,
      init_headers =
        [(''User-Agent'', USER_AGENT),
         (''Accept'', orElse (accept req) ''text/html,application/xhtml+xml,*/*''),
         (''Accept-Language'', orElse (accept_language req) ''en-US,en;q=0.9''),
         (''Referer'', origin url)],
      init_redirect = ''manual''\<rparr>"

definition safeHeaders :: "string list" where
  "safeHeaders = [''content-type'', ''content-length'', ''cache-control'', ''last-modified'', ''etag'']"

text \<open>Lines 162-166: \<^verbatim>\<open>response.headers.forEach\<close> with the filter.\<close>

definition copySafeHeaders :: "(string \<times> string) list \<Rightarrow> response \<Rightarrow> response" where
  "copySafeHeaders hs res =
     foldl (\<lambda>r (key, val). if toLowerCase key \<in> set safeHeaders then res_set key val r else r)
       res hs"

text \<open>Lines 159-171: every content type but HTML.\<close>

definition passThrough :: "upstream \<Rightarrow> string \<Rightarrow> response \<Rightarrow> response" where
  "passThrough response buf res =
     res_send buf
       (res_status (status response)
          (res_set ''X-Proxy-By'' ''DogeProxy'' (copySafeHeaders (upstream_headers response) res)))"

text \<open>Lines 144-157: HTML, with the inner \<^verbatim>\<open>try\<close> and its \<^verbatim>\<open>catch\<close>.\<close>

definition sendHtml :: "env \<Rightarrow> string \<Rightarrow> string \<Rightarrow> string \<Rightarrow> response \<Rightarrow> response" where
  "sendHtml e targetUrl contentType buf res =
     (case modifyHtml e (decode e buf) targetUrl of
        Inr modifiedHtml \<Rightarrow> res_send modifiedHtml (res_set ''Content-Type'' ''text/html; charset=utf-8'' res)
      | Inl parseError \<Rightarrow> res_send buf (res_set ''Content-Type'' contentType res))"

text \<open>Line 134: the condition of the redirect branch.\<close>

definition isRedirect :: "upstream \<Rightarrow> bool" where
  "isRedirect response =
     (status response \<ge> 300 \<and> status response < 400 \<and>
      truthy (headers_get (upstream_headers response) ''location''))"

text \<open>Lines 140-171: the response that is not a redirect, by its content type.\<close>

definition classifyResponse :: "env \<Rightarrow> string \<Rightarrow> upstream \<Rightarrow> response \<Rightarrow> response" where
  "classifyResponse e targetUrl response res =
     (let contentType = orElse (headers_get (upstream_headers response) ''content-type'') [] in
      case buffer response of
        Inl message \<Rightarrow> proxyError message res
      | Inr buf \<Rightarrow>
          if includes_str contentType ''text/html''
          then sendHtml e targetUrl contentType buf res
          else passThrough response buf res)"

text \<open>Lines 133-171: what the handler does with the response of the upstream.\<close>

definition handleResponse :: "env \<Rightarrow> string \<Rightarrow> upstream \<Rightarrow> response \<Rightarrow> response" where
  "handleResponse e targetUrl response res =
     (if isRedirect response
      then (case URL_new e (orElse (headers_get (upstream_headers response) ''location'') [])
                   (Some targetUrl) of
              Inl message \<Rightarrow> proxyError message res
            | Inr redirectUrl \<Rightarrow> res_redirect (''/proxy/'' @ href redirectUrl) res)
      else classifyResponse e targetUrl response res)"

text \<open>Lines 113-115.\<close>

definition addProtocol :: "string \<Rightarrow> string" where
  "addProtocol targetUrl =
     (if \<not> startsWith targetUrl ''http://'' \<and> \<not> startsWith targetUrl ''https://''
      then ''https://'' @ targetUrl
      else targetUrl)"

text \<open>Lines 117-226: the handler from the parse of the target on.\<close>

definition proxyTarget :: "env \<Rightarrow> request \<Rightarrow> string \<Rightarrow> response \<Rightarrow> outcome" where
  "proxyTarget e req targetUrl res =
     (case URL_new e targetUrl None of
        Inl message \<Rightarrow> \<lparr>fetched = [], reply = proxyError message res\<rparr>
      | Inr url \<Rightarrow>
         (let init = fetchInit req url in
          case fetch e targetUrl init of
            Inl message \<Rightarrow> \<lparr>fetched = [(targetUrl, init)], reply = proxyError message res\<rparr>
          | Inr response \<Rightarrow>
              \<lparr>fetched = [(targetUrl, init)], reply = handleResponse e targetUrl response res\<rparr>))"

text \<open>Lines 103-227: \<^verbatim>\<open>app.all('/proxy/*', ...)\<close>.\<close>

definition proxyHandler :: "env \<Rightarrow> request \<Rightarrow> response \<Rightarrow> outcome" where
  "proxyHandler e req res =
     (let targetUrl = params0 req in
      if targetUrl = [] then \<lparr>fetched = [], reply = res_redirect ''/'' res\<rparr>
      else proxyTarget e req (addProtocol targetUrl) res)"

text \<open>A request to \<^verbatim>\<open>/proxy/*\<close>: the middleware, then the handler.\<close>

definition proxyRequest :: "env \<Rightarrow> request \<Rightarrow> outcome" where
  "proxyRequest e req = proxyHandler e req (cacheMiddleware freshResponse)"

section \<open>Example inputs\<close>

text \<open>
  A small stand-in for the URL parser, enough to run the model on examples: it knows
  absolute \<^verbatim>\<open>https://\<close> URLs and references that start with a slash.
\<close>

definition exampleOrigin :: "string \<Rightarrow> string" where
  "exampleOrigin s = ''https://'' @ takeWhile (\<lambda>c. c \<noteq> CHR ''/'') (drop 8 s)"

definition exampleAbsolute :: "string \<Rightarrow> url" where
  "exampleAbsolute s =
     (let path = dropWhile (\<lambda>c. c \<noteq> CHR ''/'') (drop 8 s)
      in \<lparr>href = exampleOrigin s @ (if path = [] then ''/'' else path), origin = exampleOrigin s\<rparr>)"

definition exampleURL :: "string \<Rightarrow> string option \<Rightarrow> string + url" where
  "exampleURL input base =
     (if startsWith input ''https://'' then Inr (exampleAbsolute input)
      else if startsWith input ''/''
      then (case base of
              None \<Rightarrow> Inl ''Invalid URL''
            | Some b \<Rightarrow>
                if startsWith b ''https://'' then Inr (exampleAbsolute (exampleOrigin b @ input))
                else Inl ''Invalid URL'')
      else Inl ''Invalid URL'')"

text \<open>A plain serializer for the examples: tags, attributes and text, nothing escaped.\<close>

fun exampleSerialize :: "node \<Rightarrow> string" where
  "exampleSerialize (Element h ln as cs) =
     ''<'' @ ln @ concat (map (\<lambda>(k, v). '' '' @ k @ ''=\"'' @ v @ ''\"'') as) @ ''>'' @
     concat (map exampleSerialize cs) @ ''</'' @ ln @ ''>''"
| "exampleSerialize (Text s) = s"
| "exampleSerialize (Comment s) = ''<!--'' @ s @ ''-->''"
| "exampleSerialize (DocumentType s) = ''<!DOCTYPE '' @ s @ ''>''"

text \<open>
  A stand-in for the named properties of the Document: the \<^verbatim>\<open>embed\<close>, \<^verbatim>\<open>form\<close>,
  \<^verbatim>\<open>img\<close> and \<^verbatim>\<open>object\<close> elements of the HTML namespace that carry the name in their
  \<^verbatim>\<open>name\<close> attribute, in tree order.
\<close>

fun namedPaths :: "string \<Rightarrow> nat \<Rightarrow> node list \<Rightarrow> nat list list" where
  "namedPaths name i [] = []"
| "namedPaths name i (Element h ln as cs # ns) =
     (if h \<and> ln \<in> set [''embed'', ''form'', ''img'', ''object''] \<and> map_of as ''name'' = Some name
      then [[i]] else []) @
     map ((#) i) (namedPaths name 0 cs) @ namedPaths name (Suc i) ns"
| "namedPaths name i (n # ns) = namedPaths name (Suc i) ns"

definition exampleNamed :: "document \<Rightarrow> string \<Rightarrow> named option" where
  "exampleNamed doc name =
     (if name = [] then None
      else case namedPaths name 0 doc of
             [] \<Rightarrow> None
           | [p] \<Rightarrow> Some (NamedElement p)
           | p # ps \<Rightarrow> Some NamedOther)"

text \<open>
  An environment whose upstream answers every request with \<open>answer\<close> and whose HTML
  parser returns \<open>parsed\<close> for every body.
\<close>

definition exampleEnv :: "(string + upstream) \<Rightarrow> (string + document) \<Rightarrow> env" where
  "exampleEnv answer parsed =
     \<lparr>URL_new = exampleURL,
      fetch = (\<lambda>targetUrl init. answer),
      JSDOM_new = (\<lambda>html targetUrl. parsed),
      serialize = (\<lambda>doc. Inr (concat (map exampleSerialize doc))),
      decode = (\<lambda>buf. buf),
      namedItem = exampleNamed\<rparr>"

definition exampleRequest :: "string \<Rightarrow> request" where
  "exampleRequest target =
     \<lparr>req_method = ''GET'', params0 = target, accept = None, accept_language = None\<rparr>"

definition examplePage :: document where
  "examplePage =
     [DocumentType ''html'',
      Element True ''html'' []
        [Element True ''head'' []
           [Element True ''link'' [(''rel'', ''stylesheet''), (''href'', ''/style.css'')] [],
            Element True ''script'' [] [Text ''if (top != self) { top.location = self.location; }'']],
         Element True ''body'' []
           [Element True ''a'' [(''href'', ''/wiki/Dog'')] [Text ''Dog''],
            Element True ''a'' [(''href'', ''https://b.com/x'')] [Text ''elsewhere''],
            Element True ''a'' [(''href'', ''#section'')] [Text ''below''],
            Element True ''script'' [] [Text ''console.log(1)''],
            Element True ''object'' [(''data'', ''/movie.swf'')] []]]]"

definition wikipedia :: url where
  "wikipedia = \<lparr>href = ''https://en.wikipedia.org/'', origin = ''https://en.wikipedia.org''\<rparr>"

text \<open>
  Upstream answers as \<^verbatim>\<open>fetch\<close> hands them over. With \<^verbatim>\<open>redirect: 'manual'\<close> node-fetch
  replaces the Location of a 301, 302, 303, 307 or 308 by its resolution against the
  request URL; the Location of a 300 comes as the upstream sent it.
\<close>

definition emptyLocation :: upstream where
  "emptyLocation =
     \<lparr>status = 300, upstream_headers = [(''location'', [])], buffer = Inr ''choices''\<rparr>"

definition loginRedirect :: upstream where
  "loginRedirect =
     \<lparr>status = 302, upstream_headers = [(''location'', ''https://a.com/login'')],
      buffer = Inr ''moved''\<rparr>"

definition notFoundPage :: upstream where
  "notFoundPage =
     \<lparr>status = 404, upstream_headers = [(''content-type'', ''text/html; charset=iso-8859-1'')],
      buffer = Inr ''<h1>Not Found</h1>''\<rparr>"

definition download :: upstream where
  "download =
     \<lparr>status = 206,
      upstream_headers =
        [(''content-type'', ''application/octet-stream''), (''etag'', ''v1''),
         (''server'', ''nginx''), (''set-cookie'', ''id=1'')],
      buffer = Inr ''bytes''\<rparr>"

text \<open>A page whose \<^verbatim>\<open>link\<close> element has a fragment as \<^verbatim>\<open>href\<close>, and a \<^verbatim>\<open>src\<close>.\<close>

definition fragmentLinkPage :: document where
  "fragmentLinkPage =
     [DocumentType ''html'',
      Element True ''html'' []
        [Element True ''head'' []
           [Element True ''link''
              [(''rel'', ''stylesheet''), (''href'', ''#top''), (''src'', ''https://b.com/x'')] []],
         Element True ''body'' [] []]]"

text \<open>
  The documents that \<^verbatim>\<open>modifyHtml\<close> serializes for the two pages above, fetched from
  \<^verbatim>\<open>https://a.com\<close>.
\<close>

definition examplePageServed :: document where
  "examplePageServed =
     [DocumentType ''html'',
      Element True ''html'' []
        [Element True ''head'' []
           [Element True ''base'' [(''href'', ''https://a.com/''), (''target'', ''_blank'')] [],
            Element True ''link'' [(''rel'', ''stylesheet''), (''href'', ''/style.css'')] [],
            Element True ''script'' [] [Text ''// Frame busting removed'']],
         Element True ''body'' []
           [Element True ''a'' [(''href'', ''/proxy/https://a.com/wiki/Dog'')] [Text ''Dog''],
            Element True ''a''
              [(''href'', ''/proxy/https://b.com/x''), (''target'', ''_blank''),
               (''rel'', ''noopener noreferrer'')]
              [Text ''elsewhere''],
            Element True ''a'' [(''href'', ''#section'')] [Text ''below''],
            Element True ''script'' [] [Text ''console.log(1)''],
            Element True ''object'' [(''data'', ''/movie.swf'')] []]]]"

definition fragmentLinkPageServed :: document where
  "fragmentLinkPageServed =
     [DocumentType ''html'',
      Element True ''html'' []
        [Element True ''head'' []
           [Element True ''base'' [(''href'', ''https://a.com/''), (''target'', ''_blank'')] [],
            Element True ''link''
              [(''rel'', ''noopener noreferrer''), (''href'', ''#top''),
               (''src'', ''/proxy/https://b.com/x''), (''target'', ''_blank'')] []],
         Element True ''body'' [] []]]"

text \<open>The example page after the link loop, fetched from \<^verbatim>\<open>https://en.wikipedia.org/\<close>.\<close>

definition examplePageLinked :: document where
  "examplePageLinked =
     [DocumentType ''html'',
      Element True ''html'' []
        [Element True ''head'' []
           [Element True ''link'' [(''rel'', ''stylesheet''), (''href'', ''/style.css'')] [],
            Element True ''script'' []
              [Text ''if (top != self) { top.location = self.location; }'']],
         Element True ''body'' []
           [Element True ''a'' [(''href'', ''/proxy/https://en.wikipedia.org/wiki/Dog'')]
              [Text ''Dog''],
            Element True ''a''
              [(''href'', ''/proxy/https://b.com/x''), (''target'', ''_blank''),
               (''rel'', ''noopener noreferrer'')]
              [Text ''elsewhere''],
            Element True ''a'' [(''href'', ''#section'')] [Text ''below''],
            Element True ''script'' [] [Text ''console.log(1)''],
            Element True ''object'' [(''data'', ''/movie.swf'')] []]]]"

text \<open>Pages with an element that shadows a property of the Document.\<close>

definition shadowedPage :: document where
  "shadowedPage =
     [DocumentType ''html'',
      Element True ''html'' []
        [Element True ''head'' [] [],
         Element True ''body'' []
           [Element True ''img'' [(''name'', ''querySelectorAll'')] [],
            Element True ''a'' [(''href'', ''/wiki/Dog'')] [Text ''Dog'']]]]"

definition namedHeadPage :: document where
  "namedHeadPage =
     [DocumentType ''html'',
      Element True ''html'' []
        [Element True ''head'' [] [],
         Element True ''body'' []
           [Element True ''form'' [(''name'', ''head'')] []]]]"

section \<open>Notions used in the statements\<close>

text \<open>The two loops of \<^verbatim>\<open>modifyHtml\<close> as they run when nothing throws.\<close>

definition linkPass :: "env \<Rightarrow> string \<Rightarrow> url \<Rightarrow> document \<Rightarrow> document" where
  "linkPass e targetUrl url doc =
     foldl (\<lambda>d selector. map (forEachMatch selector (rewriteElement e targetUrl url)) d)
       doc linkSelectors"


text \<open>
  The value of the upstream header \<open>name\<close> (lower case) that the loop of lines 162-166
  leaves on the response: the one of the last entry of that name.
\<close>

definition upstreamHeader :: "(string \<times> string) list \<Rightarrow> string \<Rightarrow> string option" where
  "upstreamHeader hs name = map_of (rev (map (\<lambda>(key, val). (toLowerCase key, val)) hs)) name"

fun selectorTag :: "selector \<Rightarrow> string" where
  "selectorTag (TagAttr t a) = t"
| "selectorTag (Tag t) = t"

text \<open>A callback that changes nothing of an element but its attributes.\<close>

definition attrOnly :: "(node \<Rightarrow> node) \<Rightarrow> bool" where
  "attrOnly cb = (\<forall>h ln as cs. \<exists>as'. cb (Element h ln as cs) = Element h ln as' cs)"

section \<open>Facts about the string functions\<close>

lemma lower_Location: "toLowerCase ''Location'' = ''location''"
  by (simp add: toLowerCase_def toLowerChar_def)

lemma lower_location: "toLowerCase ''location'' = ''location''"
  by (simp add: toLowerCase_def toLowerChar_def)

lemma lower_Content_Type: "toLowerCase ''Content-Type'' = ''content-type''"
  by (simp add: toLowerCase_def toLowerChar_def)

lemma lower_content_type: "toLowerCase ''content-type'' = ''content-type''"
  by (simp add: toLowerCase_def toLowerChar_def)

lemma lower_Cache_Control: "toLowerCase ''Cache-Control'' = ''cache-control''"
  by (simp add: toLowerCase_def toLowerChar_def)

lemma lower_X_Proxy_By: "toLowerCase ''X-Proxy-By'' = ''x-proxy-by''"
  by (simp add: toLowerCase_def toLowerChar_def)

lemma startsWith_iff: "startsWith s p \<longleftrightarrow> (\<exists>b. s = p @ b)"
  unfolding startsWith_def
  by (metis append_eq_conv_conj)

text \<open>\<open>includes_str s p\<close> holds exactly when \<open>p\<close> occurs in \<open>s\<close> as a contiguous block.\<close>

lemma includes_str_iff: "includes_str s p \<longleftrightarrow> (\<exists>a b. s = a @ p @ b)"
proof (induction s)
  case Nil
  then show ?case by auto
next
  case (Cons c s)
  show ?case
  proof
    assume "includes_str (c # s) p"
    then consider "startsWith (c # s) p" | "includes_str s p" by auto
    then show "\<exists>a b. c # s = a @ p @ b"
    proof cases
      case 1
      then obtain b where "c # s = p @ b" by (auto simp: startsWith_iff)
      then have "c # s = [] @ p @ b" by simp
      then show ?thesis by blast
    next
      case 2
      then obtain a b where "s = a @ p @ b" using Cons.IH by auto
      then have "c # s = (c # a) @ p @ b" by simp
      then show ?thesis by blast
    qed
  next
    assume "\<exists>a b. c # s = a @ p @ b"
    then obtain a b where ab: "c # s = a @ p @ b" by auto
    show "includes_str (c # s) p"
    proof (cases a)
      case Nil
      with ab have "startsWith (c # s) p" by (auto simp: startsWith_iff)
      then show ?thesis by simp
    next
      case (Cons x a')
      with ab have "s = a' @ p @ b" by simp
      then have "includes_str s p" using Cons.IH by auto
      then show ?thesis by simp
    qed
  qed
qed

lemma includes_str_middle: "includes_str (a @ p @ b) p"
  by (auto simp: includes_str_iff)

section \<open>Facts about the response\<close>

lemma errorPageAfter_link: "includes_str errorPageAfter ''<a href=\"/\">''"
  by (simp add: errorPageAfter_def newline_def startsWith_def)

lemma errorPage_link: "includes_str (errorPage message) ''<a href=\"/\">''"
proof -
  obtain a b where "errorPageAfter = a @ ''<a href=\"/\">'' @ b"
    using errorPageAfter_link unfolding includes_str_iff by blast
  then have "errorPage message = (errorPageBefore @ message @ a) @ ''<a href=\"/\">'' @ b"
    by (simp add: errorPage_def)
  then show ?thesis unfolding includes_str_iff by blast
qed

lemma errorPage_message: "includes_str (errorPage message) message"
  by (simp add: errorPage_def includes_str_middle)

lemma proxyError_simps:
  "statusCode (proxyError m r) = 502"
  "sent (proxyError m r) = Some (Body (errorPage m))"
  "headers (proxyError m r) = headers r"
  by (simp_all add: proxyError_def res_send_def res_status_def)

lemma res_set_simps:
  "statusCode (res_set k v r) = statusCode r"
  "sent (res_set k v r) = sent r"
  "map_of (headers (res_set k v r)) n = (if n = toLowerCase k then Some v else map_of (headers r) n)"
  by (simp_all add: res_set_def update_conv')

lemma res_status_simps:
  "statusCode (res_status c r) = c"
  "sent (res_status c r) = sent r"
  "headers (res_status c r) = headers r"
  by (simp_all add: res_status_def)

lemma res_send_simps:
  "statusCode (res_send b r) = statusCode r"
  "sent (res_send b r) = Some (Body b)"
  "headers (res_send b r) = headers r"
  by (simp_all add: res_send_def)

lemma res_redirect_simps:
  "statusCode (res_redirect u r) = 302"
  "sent (res_redirect u r) = Some (RedirectTo u)"
  "map_of (headers (res_redirect u r)) n = (if n = ''location'' then Some u else map_of (headers r) n)"
  by (simp_all add: res_redirect_def res_status_simps res_set_simps lower_Location)

lemma middleware_response:
  "cacheMiddleware freshResponse =
     \<lparr>statusCode = 200, headers = [(''cache-control'', ''no-cache, no-store, must-revalidate'')],
      sent = None\<rparr>"
  by (simp add: cacheMiddleware_def freshResponse_def res_set_def lower_Cache_Control)

lemma copySafeHeaders_status: "statusCode (copySafeHeaders hs r) = statusCode r"
  unfolding copySafeHeaders_def
  by (induction hs arbitrary: r) (auto simp: res_set_simps)

lemma copySafeHeaders_sent: "sent (copySafeHeaders hs r) = sent r"
  unfolding copySafeHeaders_def
  by (induction hs arbitrary: r) (auto simp: res_set_simps)

lemma copySafeHeaders_headers:
  "map_of (headers (copySafeHeaders hs r)) n =
     (if n \<in> set safeHeaders
      then (case upstreamHeader hs n of Some v \<Rightarrow> Some v | None \<Rightarrow> map_of (headers r) n)
      else map_of (headers r) n)"
proof (induction hs arbitrary: r)
  case Nil
  then show ?case by (simp add: copySafeHeaders_def upstreamHeader_def)
next
  case (Cons h hs)
  obtain key val where h: "h = (key, val)" by (cases h)
  let ?r = "if toLowerCase key \<in> set safeHeaders then res_set key val r else r"
  have step: "copySafeHeaders (h # hs) r = copySafeHeaders hs ?r"
    by (simp add: copySafeHeaders_def h)
  have last: "upstreamHeader (h # hs) n =
      (case upstreamHeader hs n of Some v \<Rightarrow> Some v
       | None \<Rightarrow> if n = toLowerCase key then Some val else None)"
    by (auto simp: upstreamHeader_def h map_add_def split: option.splits)
  show ?case
    unfolding step Cons.IH last
    by (auto simp: res_set_simps split: option.splits)
qed

text \<open>A request whose target parses and whose fetch resolves ends in \<open>handleResponse\<close>.\<close>

lemma proxyRequest_fetched:
  assumes "params0 req \<noteq> []"
    and "URL_new e (addProtocol (params0 req)) None = Inr url"
    and "fetch e (addProtocol (params0 req)) (fetchInit req url) = Inr response"
  shows "reply (proxyRequest e req) =
           handleResponse e (addProtocol (params0 req)) response (cacheMiddleware freshResponse)"
  using assms by (simp add: proxyRequest_def proxyHandler_def proxyTarget_def Let_def)

lemma example_target: "addProtocol (params0 (exampleRequest ''a.com'')) = ''https://a.com''"
  by (simp add: exampleRequest_def addProtocol_def startsWith_def)

lemma example_parsed:
  "URL_new (exampleEnv answer parsed) ''https://a.com'' None =
     Inr \<lparr>href = ''https://a.com/'', origin = ''https://a.com''\<rparr>"
  by (simp add: exampleEnv_def exampleURL_def startsWith_def exampleAbsolute_def exampleOrigin_def)

lemma example_fetched:
  "reply (proxyRequest (exampleEnv (Inr response) parsed) (exampleRequest ''a.com'')) =
     handleResponse (exampleEnv (Inr response) parsed) ''https://a.com'' response
       (cacheMiddleware freshResponse)"
  by (simp add: proxyRequest_def proxyHandler_def proxyTarget_def Let_def exampleRequest_def
      exampleEnv_def addProtocol_def startsWith_def exampleURL_def)

section \<open>Facts about the document functions\<close>

lemma matches_tag: "matches sel (Element h ln as cs) \<Longrightarrow> selectorTag sel = ln"
  by (cases sel) auto

lemma matches_children: "matches sel (Element h ln as cs) = matches sel (Element h ln as cs')"
  by (cases sel) auto

lemma attrOf_children: "attrOf (Element h ln as cs) = attrOf (Element h ln as' cs')"
  by (simp add: attrOf_def)

lemma rewriteElement_shape:
  "\<exists>as'. rewriteElement e t u (Element h ln as cs) = Element h ln as' cs"
  by (auto simp: rewriteElement_def Let_def split: option.splits sum.splits)

lemma rewriteElement_attrOnly: "attrOnly (rewriteElement e t u)"
  unfolding attrOnly_def using rewriteElement_shape by blast

lemma rewriteElement_children:
  "attributes (rewriteElement e t u (Element h ln as cs)) =
   attributes (rewriteElement e t u (Element h ln as cs'))"
proof -
  have a: "attrOf (Element h ln as cs) = attrOf (Element h ln as cs')"
    by (rule attrOf_children)
  show ?thesis
    unfolding rewriteElement_def Let_def a
    by (simp split: option.splits sum.splits)
qed

lemma forEachMatch_attrOnly:
  assumes "attrOnly cb"
  shows "forEachMatch sel cb (Element h ln as cs) =
     Element h ln
       (attributes (if matches sel (Element h ln as cs) then cb (Element h ln as cs)
                    else Element h ln as cs))
       (map (forEachMatch sel cb) cs)"
proof -
  obtain as' where "cb (Element h ln as cs) = Element h ln as' cs"
    using assms unfolding attrOnly_def by blast
  then show ?thesis by simp
qed

text \<open>A pass with such a callback keeps every node at its place.\<close>

lemma nodeAt_forEachMatch:
  assumes "attrOnly cb"
  shows "nodeAt (map (forEachMatch sel cb) doc) p = map_option (forEachMatch sel cb) (nodeAt doc p)"
proof (induction p arbitrary: doc)
  case Nil
  then show ?case by simp
next
  case (Cons i p)
  show ?case
  proof (cases "i < length doc")
    case False
    then show ?thesis by simp
  next
    case i: True
    show ?thesis
    proof (cases "p = []")
      case True
      with i show ?thesis by simp
    next
      case False
      show ?thesis
      proof (cases "doc ! i")
        case (Element h ln as cs)
        with False i Cons.IH [of cs] show ?thesis
          by (simp add: forEachMatch_attrOnly [OF assms] del: forEachMatch.simps(1))
      qed (use False i in simp_all)
    qed
  qed
qed

text \<open>One element through all the passes of a selector list with distinct tags.\<close>

lemma foldl_forEachMatch_element:
  assumes cb: "attrOnly cb"
    and cbc: "\<And>h ln as cs cs'. attributes (cb (Element h ln as cs)) = attributes (cb (Element h ln as cs'))"
  shows "distinct (map selectorTag sels) \<Longrightarrow>
     foldl (\<lambda>n sel. forEachMatch sel cb n) (Element h ln as cs) sels =
       Element h ln
         (if \<exists>sel \<in> set sels. matches sel (Element h ln as cs)
          then attributes (cb (Element h ln as cs)) else as)
         (foldl (\<lambda>d sel. map (forEachMatch sel cb) d) cs sels)"
proof (induction sels arbitrary: as cs)
  case Nil
  then show ?case by simp
next
  case (Cons sel sels)
  let ?el = "Element h ln as cs"
  let ?as1 = "attributes (if matches sel ?el then cb ?el else ?el)"
  let ?cs1 = "map (forEachMatch sel cb) cs"
  have step: "forEachMatch sel cb ?el = Element h ln ?as1 ?cs1"
    by (rule forEachMatch_attrOnly [OF cb])
  from Cons.prems have d: "distinct (map selectorTag sels)"
    and notin: "selectorTag sel \<notin> selectorTag ` set sels" by auto
  note IH = Cons.IH [OF d, of ?as1 ?cs1]
  show ?case
  proof (cases "matches sel ?el")
    case True
    then have tag: "selectorTag sel = ln" by (rule matches_tag)
    have none: "\<not> (\<exists>s \<in> set sels. matches s (Element h ln ?as1 ?cs1))"
    proof
      assume "\<exists>s \<in> set sels. matches s (Element h ln ?as1 ?cs1)"
      then obtain s where s: "s \<in> set sels" and m: "matches s (Element h ln ?as1 ?cs1)" by blast
      from m have "selectorTag s = ln" by (rule matches_tag)
      with s tag notin show False by (metis image_eqI)
    qed
    from True none show ?thesis
      using IH step by (simp del: forEachMatch.simps)
  next
    case False
    have same: "\<And>s. matches s (Element h ln as ?cs1) = matches s ?el"
      by (rule matches_children)
    from False show ?thesis
      using IH step cbc [of h ln as ?cs1 cs]
      by (simp add: same del: forEachMatch.simps)
  qed
qed


lemma nodeAt_foldl_forEachMatch:
  assumes cb: "attrOnly cb"
  shows "nodeAt (foldl (\<lambda>d sel. map (forEachMatch sel cb) d) doc sels) p =
       map_option (\<lambda>n. foldl (\<lambda>n sel. forEachMatch sel cb n) n sels) (nodeAt doc p)"
proof (induction sels arbitrary: doc)
  case Nil
  then show ?case by (simp add: option.map_ident)
next
  case (Cons sel sels)
  show ?case
    by (simp add: Cons.IH nodeAt_forEachMatch [OF cb] option.map_comp comp_def)
qed

lemma linkSelectors_distinct: "distinct (map selectorTag linkSelectors)"
  by (simp add: linkSelectors_def)

text \<open>The link loop, read at one place of the document.\<close>

lemma nodeAt_linkPass:
  assumes "nodeAt doc p = Some (Element h ln as cs)"
  shows "nodeAt (linkPass e t u doc) p =
     Some (Element h ln
       (if \<exists>sel \<in> set linkSelectors. matches sel (Element h ln as cs)
        then attributes (rewriteElement e t u (Element h ln as cs)) else as)
       (linkPass e t u cs))"
  unfolding linkPass_def
  using nodeAt_foldl_forEachMatch [OF rewriteElement_attrOnly, of e t u doc linkSelectors p]
    foldl_forEachMatch_element [OF rewriteElement_attrOnly rewriteElement_children
      linkSelectors_distinct, of e t u h ln as cs] assms
  by simp





text \<open>When the loops do not throw, they give what the passes give.\<close>

lemma rewriteLinks_Inr:
  assumes "rewriteLinks e t u doc = Inr d"
  shows "d = linkPass e t u doc"
proof -
  let ?step = "\<lambda>state selector.
      case state of
        Inl err \<Rightarrow> Inl err
      | Inr d \<Rightarrow> querySelectorAll_forEach e selector (rewriteElement e t u) d"
  have stuck: "foldl ?step (Inl err) sels = Inl err" for err sels
    by (induction sels) simp_all
  have "foldl ?step (Inr doc) sels = Inr d \<Longrightarrow>
      d = foldl (\<lambda>d selector. map (forEachMatch selector (rewriteElement e t u)) d) doc sels"
    for sels doc
  proof (induction sels arbitrary: doc)
    case Nil
    then show ?case by simp
  next
    case (Cons sel sels)
    show ?case
    proof (cases "namedItem e doc ''querySelectorAll''")
      case None
      with Cons.prems have "foldl ?step (Inr (map (forEachMatch sel (rewriteElement e t u)) doc)) sels =
          Inr d"
        by (simp add: querySelectorAll_forEach_def)
      from Cons.IH [OF this] show ?thesis by simp
    next
      case (Some a)
      with Cons.prems stuck show ?thesis
        by (simp add: querySelectorAll_forEach_def)
    qed
  qed
  with assms show ?thesis by (simp add: rewriteLinks_def linkPass_def)
qed




section \<open>Facts about the script loop and the base element\<close>



lemma placeholder_harmless: "\<not> isFrameBusting ''// Frame busting removed''"
  by (simp add: isFrameBusting_def startsWith_def)







section \<open>The model on the example pages\<close>

lemma attrOf_by_tag:
  "attrOf (Element True ''a'' as cs) = ''href''"
  "attrOf (Element True ''form'' as cs) = ''action''"
  "attrOf (Element True ''script'' as cs) = ''src''"
  "attrOf (Element True ''img'' as cs) = ''src''"
  "attrOf (Element True ''iframe'' as cs) = ''src''"
  "attrOf (Element True ''embed'' as cs) = ''src''"
  "attrOf (Element True ''source'' as cs) = ''src''"
  "attrOf (Element True ''video'' as cs) = ''src''"
  "attrOf (Element True ''audio'' as cs) = ''src''"
  "attrOf (Element True ''link'' as cs) = ''src''"
  "attrOf (Element True ''object'' as cs) = ''src''"
  by (simp_all add: attrOf_def toUpperCase_def toUpperChar_def)

lemma forEachMatch_rewrite:
  "forEachMatch sel (rewriteElement e t u) (Element h ln as cs) =
     Element h ln
       (attributes (if matches sel (Element h ln as cs) then rewriteElement e t u (Element h ln as cs)
                    else Element h ln as cs))
       (map (forEachMatch sel (rewriteElement e t u)) cs)"
  by (rule forEachMatch_attrOnly [OF rewriteElement_attrOnly])

lemma example_resolution:
  "URL_new (exampleEnv answer parsed) ''/style.css'' (Some ''https://en.wikipedia.org/'') =
     Inr \<lparr>href = ''https://en.wikipedia.org/style.css'', origin = ''https://en.wikipedia.org''\<rparr>"
  "URL_new (exampleEnv answer parsed) ''/movie.swf'' (Some ''https://en.wikipedia.org/'') =
     Inr \<lparr>href = ''https://en.wikipedia.org/movie.swf'', origin = ''https://en.wikipedia.org''\<rparr>"
  "URL_new (exampleEnv answer parsed) ''/style.css'' (Some ''https://a.com'') =
     Inr \<lparr>href = ''https://a.com/style.css'', origin = ''https://a.com''\<rparr>"
  by (simp_all add: exampleEnv_def exampleURL_def startsWith_def exampleAbsolute_def
      exampleOrigin_def)

lemma examplePage_nodes:
  "nodeAt examplePage [1, 0, 0] =
     Some (Element True ''link'' [(''rel'', ''stylesheet''), (''href'', ''/style.css'')] [])"
  "nodeAt examplePage [1, 0, 1] =
     Some (Element True ''script'' []
       [Text ''if (top != self) { top.location = self.location; }''])"
  "nodeAt examplePage [1, 1, 3] = Some (Element True ''script'' [] [Text ''console.log(1)''])"
  "nodeAt examplePage [1, 1, 4] = Some (Element True ''object'' [(''data'', ''/movie.swf'')] [])"
  by (simp_all add: examplePage_def)

text \<open>The link loop on the example page, fetched from \<^verbatim>\<open>https://en.wikipedia.org/\<close>.\<close>

lemma example_rewriteLinks:
  "rewriteLinks (exampleEnv answer parsed) ''https://en.wikipedia.org/'' wikipedia examplePage =
     Inr examplePageLinked"
  by (simp add: rewriteLinks_def linkSelectors_def querySelectorAll_forEach_def examplePage_def
      forEachMatch_rewrite rewriteElement_def attrOf_by_tag skipped_def startsWith_def
      exampleEnv_def exampleNamed_def exampleURL_def exampleAbsolute_def exampleOrigin_def
      PROXY_PREFIX_def wikipedia_def examplePageLinked_def
      del: forEachMatch.simps(1))

text \<open>\<^verbatim>\<open>modifyHtml\<close> on the example page, fetched from \<^verbatim>\<open>https://a.com\<close>.\<close>

lemma example_modifyDocument:
  "modifyDocument (exampleEnv answer parsed) ''https://a.com'' examplePage = Inr examplePageServed"
proof -
  let ?e = "exampleEnv answer parsed"
  let ?u = "\<lparr>href = ''https://a.com/'', origin = ''https://a.com''\<rparr>"
  have u: "URL_new ?e ''https://a.com'' None = Inr ?u"
    by (rule example_parsed)
  have links: "rewriteLinks ?e ''https://a.com'' ?u examplePage =
     Inr [DocumentType ''html'',
      Element True ''html'' []
        [Element True ''head'' []
           [Element True ''link'' [(''rel'', ''stylesheet''), (''href'', ''/style.css'')] [],
            Element True ''script'' [] [Text ''if (top != self) { top.location = self.location; }'']],
         Element True ''body'' []
           [Element True ''a'' [(''href'', ''/proxy/https://a.com/wiki/Dog'')] [Text ''Dog''],
            Element True ''a''
              [(''href'', ''/proxy/https://b.com/x''), (''target'', ''_blank''),
               (''rel'', ''noopener noreferrer'')]
              [Text ''elsewhere''],
            Element True ''a'' [(''href'', ''#section'')] [Text ''below''],
            Element True ''script'' [] [Text ''console.log(1)''],
            Element True ''object'' [(''data'', ''/movie.swf'')] []]]]"
    by (simp add: rewriteLinks_def linkSelectors_def querySelectorAll_forEach_def examplePage_def
        forEachMatch_rewrite rewriteElement_def attrOf_by_tag skipped_def startsWith_def
        exampleEnv_def exampleNamed_def exampleURL_def exampleAbsolute_def exampleOrigin_def
        PROXY_PREFIX_def
        del: forEachMatch.simps(1))
  have n: "\<And>d name. namedItem ?e d name = exampleNamed d name"
    by (simp add: exampleEnv_def)
  show ?thesis
    by (simp add: modifyDocument_def u links removeFrameBusting_def querySelectorAll_forEach_def
        n exampleNamed_def neutralizeScript_def isFrameBusting_def startsWith_def addBase_def
        baseElement_def document_head_def headPath_def isHead_def isElement_def
        examplePageServed_def)
qed

lemma example_modifyHtml:
  "modifyHtml (exampleEnv answer (Inr examplePage)) html ''https://a.com'' =
     Inr (concat
       [''<!DOCTYPE html><html><head><base href=\"https://a.com/\" target=\"_blank\">'',
        ''</base><link rel=\"stylesheet\" href=\"/style.css\"></link>'',
        ''<script>// Frame busting removed</script></head><body>'',
        ''<a href=\"/proxy/https://a.com/wiki/Dog\">Dog</a>'',
        ''<a href=\"/proxy/https://b.com/x\" target=\"_blank\" rel=\"noopener noreferrer\">'',
        ''elsewhere</a><a href=\"#section\">below</a><script>console.log(1)</script>'',
        ''<object data=\"/movie.swf\"></object></body></html>''])"
proof -
  have j: "JSDOM_new (exampleEnv answer (Inr examplePage)) html ''https://a.com'' = Inr examplePage"
    and s: "\<And>d. serialize (exampleEnv answer (Inr examplePage)) d =
      Inr (concat (map exampleSerialize d))"
    by (simp_all add: exampleEnv_def)
  show ?thesis
    by (simp add: modifyHtml_def j example_modifyDocument s examplePageServed_def)
qed

text \<open>The page whose \<^verbatim>\<open>link\<close> has a fragment as \<^verbatim>\<open>href\<close>, fetched from \<^verbatim>\<open>https://a.com\<close>.\<close>

lemma fragmentLink_modifyDocument:
  "modifyDocument (exampleEnv answer parsed) ''https://a.com'' fragmentLinkPage =
     Inr fragmentLinkPageServed"
proof -
  let ?e = "exampleEnv answer parsed"
  let ?u = "\<lparr>href = ''https://a.com/'', origin = ''https://a.com''\<rparr>"
  have u: "URL_new ?e ''https://a.com'' None = Inr ?u"
    by (rule example_parsed)
  have links: "rewriteLinks ?e ''https://a.com'' ?u fragmentLinkPage =
     Inr [DocumentType ''html'',
      Element True ''html'' []
        [Element True ''head'' []
           [Element True ''link''
              [(''rel'', ''noopener noreferrer''), (''href'', ''#top''),
               (''src'', ''/proxy/https://b.com/x''), (''target'', ''_blank'')] []],
         Element True ''body'' [] []]]"
    by (simp add: rewriteLinks_def linkSelectors_def querySelectorAll_forEach_def
        fragmentLinkPage_def forEachMatch_rewrite rewriteElement_def attrOf_by_tag skipped_def
        startsWith_def exampleEnv_def exampleNamed_def exampleURL_def exampleAbsolute_def
        exampleOrigin_def PROXY_PREFIX_def
        del: forEachMatch.simps(1))
  have n: "\<And>d name. namedItem ?e d name = exampleNamed d name"
    by (simp add: exampleEnv_def)
  show ?thesis
    by (simp add: modifyDocument_def u links removeFrameBusting_def querySelectorAll_forEach_def
        n exampleNamed_def neutralizeScript_def isFrameBusting_def startsWith_def addBase_def
        baseElement_def document_head_def headPath_def isHead_def isElement_def
        fragmentLinkPageServed_def)
qed

text \<open>
  A page with \<^verbatim>\<open><img name="querySelectorAll">\<close>: line 50 throws, and \<^verbatim>\<open>modifyHtml\<close> with
  it. A page with \<^verbatim>\<open><form name="head">\<close>: the base element goes into the form.
\<close>

lemma shadowed_modifyHtml:
  "modifyHtml (exampleEnv answer (Inr shadowedPage)) html ''https://a.com'' =
     Inl ''document.querySelectorAll is not a function''"
proof -
  let ?e = "exampleEnv answer (Inr shadowedPage)"
  have j: "JSDOM_new ?e html ''https://a.com'' = Inr shadowedPage"
    by (simp add: exampleEnv_def)
  have links: "rewriteLinks ?e ''https://a.com'' u shadowedPage =
      Inl ''document.querySelectorAll is not a function''" for u
    by (simp add: rewriteLinks_def linkSelectors_def querySelectorAll_forEach_def exampleEnv_def
        exampleNamed_def shadowedPage_def)
  have "modifyDocument ?e ''https://a.com'' shadowedPage =
      Inl ''document.querySelectorAll is not a function''"
    unfolding modifyDocument_def example_parsed links by simp
  then show ?thesis
    unfolding modifyHtml_def j by simp
qed

lemma namedHead_modifyDocument:
  "modifyDocument (exampleEnv answer parsed) ''https://a.com'' namedHeadPage =
     Inr [DocumentType ''html'',
          Element True ''html'' []
            [Element True ''head'' [] [],
             Element True ''body'' []
               [Element True ''form'' [(''name'', ''head'')]
                  [Element True ''base''
                     [(''href'', ''https://a.com/''), (''target'', ''_blank'')] []]]]]"
proof -
  let ?e = "exampleEnv answer parsed"
  have links: "rewriteLinks ?e ''https://a.com'' u namedHeadPage = Inr namedHeadPage" for u
    by (simp add: rewriteLinks_def linkSelectors_def querySelectorAll_forEach_def
        namedHeadPage_def exampleEnv_def exampleNamed_def)
  have n: "\<And>d name. namedItem ?e d name = exampleNamed d name"
    by (simp add: exampleEnv_def)
  show ?thesis
    unfolding modifyDocument_def example_parsed links
    by (simp add: removeFrameBusting_def querySelectorAll_forEach_def n exampleNamed_def
        namedHeadPage_def addBase_def baseElement_def document_head_def)
qed

section \<open>The target of a request\<close>

text \<open>
  C8. A request whose target segment \<^verbatim>\<open>req.params[0]\<close> is empty is answered with a
  redirect to the landing page \<^verbatim>\<open>/\<close> (status 302, Location \<^verbatim>\<open>/\<close>), and \<^verbatim>\<open>fetch\<close> is not
  called for it: the list of upstream calls of the request is empty.
\<close>

theorem missing_target_redirects_home:
  "params0 req = [] \<Longrightarrow>
     fetched (proxyRequest e req) = [] \<and>
     sent (reply (proxyRequest e req)) = Some (RedirectTo ''/'') \<and>
     statusCode (reply (proxyRequest e req)) = 302 \<and>
     map_of (headers (reply (proxyRequest e req))) ''location'' = Some ''/''"
  by (simp add: proxyRequest_def proxyHandler_def res_redirect_def res_status_def res_set_def
      lower_Location update_Some_unfold)

theorem missing_target_redirects_home_witness:
  "params0 (exampleRequest []) = [] \<and>
   fetched (proxyRequest (exampleEnv (Inl ''unreachable'') (Inl ''unused'')) (exampleRequest [])) = [] \<and>
   sent (reply (proxyRequest (exampleEnv (Inl ''unreachable'') (Inl ''unused'')) (exampleRequest []))) =
     Some (RedirectTo ''/'')"
  using missing_target_redirects_home
    [of "exampleRequest []" "exampleEnv (Inl ''unreachable'') (Inl ''unused'')"]
  by (simp add: exampleRequest_def)

text \<open>
  C7. For a non-empty target segment: when it starts with neither \<^verbatim>\<open>http://\<close> nor
  \<^verbatim>\<open>https://\<close>, the handler goes on with \<^verbatim>\<open>https://\<close> followed by the segment (one prefix,
  nothing else changed); when it starts with one of the two, the handler goes on with the
  segment as it is. The string it goes on with is the one given to the URL parser: when
  the parse succeeds it is the URL that is fetched, and when the parse throws the request
  ends with the error page, without a fetch.
\<close>

theorem protocol_added_once:
  assumes "params0 req \<noteq> []"
  shows "(\<not> startsWith (params0 req) ''http://'' \<and> \<not> startsWith (params0 req) ''https://'' \<longrightarrow>
            addProtocol (params0 req) = ''https://'' @ params0 req \<and>
            proxyHandler e req res = proxyTarget e req (''https://'' @ params0 req) res) \<and>
         (startsWith (params0 req) ''http://'' \<or> startsWith (params0 req) ''https://'' \<longrightarrow>
            addProtocol (params0 req) = params0 req \<and>
            proxyHandler e req res = proxyTarget e req (params0 req) res) \<and>
         (\<forall>url. URL_new e (addProtocol (params0 req)) None = Inr url \<longrightarrow>
            map fst (fetched (proxyHandler e req res)) = [addProtocol (params0 req)]) \<and>
         (\<forall>message. URL_new e (addProtocol (params0 req)) None = Inl message \<longrightarrow>
            proxyHandler e req res = \<lparr>fetched = [], reply = proxyError message res\<rparr>)"
  using assms
  by (auto simp: proxyHandler_def addProtocol_def proxyTarget_def Let_def split: sum.splits)

theorem protocol_added_once_witness:
  "params0 (exampleRequest ''wikipedia.org'') \<noteq> [] \<and>
   \<not> startsWith (params0 (exampleRequest ''wikipedia.org'')) ''http://'' \<and>
   \<not> startsWith (params0 (exampleRequest ''wikipedia.org'')) ''https://'' \<and>
   addProtocol (params0 (exampleRequest ''wikipedia.org'')) = ''https://wikipedia.org'' \<and>
   map fst (fetched (proxyHandler (exampleEnv (Inl ''unreachable'') (Inl ''unused''))
     (exampleRequest ''wikipedia.org'') freshResponse)) = [''https://wikipedia.org''] \<and>
   params0 (exampleRequest ''http://example.com/'') \<noteq> [] \<and>
   startsWith (params0 (exampleRequest ''http://example.com/'')) ''http://'' \<and>
   addProtocol (params0 (exampleRequest ''http://example.com/'')) = ''http://example.com/''"
proof -
  let ?e = "exampleEnv (Inl ''unreachable'') (Inl ''unused'')"
  have a: "params0 (exampleRequest ''wikipedia.org'') \<noteq> []"
    and b: "\<not> startsWith (params0 (exampleRequest ''wikipedia.org'')) ''http://''"
    and c: "\<not> startsWith (params0 (exampleRequest ''wikipedia.org'')) ''https://''"
    and d: "params0 (exampleRequest ''http://example.com/'') \<noteq> []"
    and f: "startsWith (params0 (exampleRequest ''http://example.com/'')) ''http://''"
    by (simp_all add: exampleRequest_def startsWith_def)
  from protocol_added_once [OF a] b c
  have p1: "addProtocol (params0 (exampleRequest ''wikipedia.org'')) =
      ''https://'' @ params0 (exampleRequest ''wikipedia.org'')"
    by blast
  from protocol_added_once [OF d] f
  have p2: "addProtocol (params0 (exampleRequest ''http://example.com/'')) =
      params0 (exampleRequest ''http://example.com/'')"
    by blast
  from p1 have q1: "addProtocol (params0 (exampleRequest ''wikipedia.org'')) = ''https://wikipedia.org''"
    by (simp add: exampleRequest_def)
  from p2 have q2: "addProtocol (params0 (exampleRequest ''http://example.com/'')) = ''http://example.com/''"
    by (simp add: exampleRequest_def)
  have parsed: "URL_new ?e (addProtocol (params0 (exampleRequest ''wikipedia.org''))) None =
      Inr (exampleAbsolute ''https://wikipedia.org'')"
    unfolding q1 by (simp add: exampleEnv_def exampleURL_def startsWith_def)
  from protocol_added_once [OF a, of ?e freshResponse] parsed
  have "map fst (fetched (proxyHandler ?e (exampleRequest ''wikipedia.org'') freshResponse)) =
      [addProtocol (params0 (exampleRequest ''wikipedia.org''))]"
    by blast
  then have q3: "map fst (fetched (proxyHandler ?e (exampleRequest ''wikipedia.org'') freshResponse)) =
      [''https://wikipedia.org'']"
    unfolding q1 .
  from a b c d f q1 q2 q3 show ?thesis by blast
qed

section \<open>Failures\<close>

text \<open>
  C9. When the parse of the target URL throws, or \<^verbatim>\<open>fetch\<close> rejects, or reading the body
  of the upstream response rejects, with the message \<open>message\<close>, the request is answered
  with status 502 and the error page built around that message; the page contains the
  message as it is and the link \<^verbatim>\<open><a href="/">\<close>.
\<close>

theorem failure_gives_502_page:
  assumes "params0 req \<noteq> []"
    and "URL_new e (addProtocol (params0 req)) None = Inl message \<or>
         (\<exists>url. URL_new e (addProtocol (params0 req)) None = Inr url \<and>
            (fetch e (addProtocol (params0 req)) (fetchInit req url) = Inl message \<or>
             (\<exists>response.
                fetch e (addProtocol (params0 req)) (fetchInit req url) = Inr response \<and>
                \<not> isRedirect response \<and> buffer response = Inl message)))"
  shows "statusCode (reply (proxyRequest e req)) = 502 \<and>
         sent (reply (proxyRequest e req)) = Some (Body (errorPage message)) \<and>
         includes_str (errorPage message) message \<and>
         includes_str (errorPage message) ''<a href=\"/\">''"
  using assms
  by (auto simp: proxyRequest_def proxyHandler_def proxyTarget_def handleResponse_def
      classifyResponse_def proxyError_simps errorPage_message errorPage_link Let_def)

theorem failure_gives_502_page_witness:
  "params0 (exampleRequest ''nowhere.invalid'') \<noteq> [] \<and>
   (\<exists>url. URL_new (exampleEnv (Inl ''getaddrinfo ENOTFOUND nowhere.invalid'') (Inl ''unused''))
            (addProtocol (params0 (exampleRequest ''nowhere.invalid''))) None = Inr url \<and>
      fetch (exampleEnv (Inl ''getaddrinfo ENOTFOUND nowhere.invalid'') (Inl ''unused''))
        (addProtocol (params0 (exampleRequest ''nowhere.invalid'')))
        (fetchInit (exampleRequest ''nowhere.invalid'') url) =
      Inl ''getaddrinfo ENOTFOUND nowhere.invalid'') \<and>
   statusCode (reply (proxyRequest (exampleEnv (Inl ''getaddrinfo ENOTFOUND nowhere.invalid'')
      (Inl ''unused'')) (exampleRequest ''nowhere.invalid''))) = 502 \<and>
   includes_str (errorPage ''getaddrinfo ENOTFOUND nowhere.invalid'')
      ''getaddrinfo ENOTFOUND nowhere.invalid''"
proof -
  let ?e = "exampleEnv (Inl ''getaddrinfo ENOTFOUND nowhere.invalid'') (Inl ''unused'')"
  let ?req = "exampleRequest ''nowhere.invalid''"
  have h1: "params0 ?req \<noteq> []" by (simp add: exampleRequest_def)
  have h2: "\<exists>url. URL_new ?e (addProtocol (params0 ?req)) None = Inr url \<and>
      fetch ?e (addProtocol (params0 ?req)) (fetchInit ?req url) =
      Inl ''getaddrinfo ENOTFOUND nowhere.invalid''"
    by (simp add: exampleRequest_def exampleEnv_def addProtocol_def startsWith_def exampleURL_def)
  from failure_gives_502_page [of ?req ?e "''getaddrinfo ENOTFOUND nowhere.invalid''"] h1 h2
  show ?thesis by blast
qed

section \<open>Redirects of the upstream\<close>

text \<open>
  C3, as the claim states it, fails on a Location header that is present and empty: the
  condition of line 134 tests the value of \<^verbatim>\<open>headers.get('location')\<close> for truthiness, not
  for presence. The upstream below answers 300 (Multiple Choices) with an empty Location,
  which \<^verbatim>\<open>fetch\<close> hands over as it came; the client gets the upstream body, passed through
  with the upstream status, and no Location header.
\<close>

theorem empty_location_counterexample:
  "300 \<le> status emptyLocation \<and> status emptyLocation < 400 \<and>
   headers_get (upstream_headers emptyLocation) ''location'' = Some [] \<and>
   buffer emptyLocation = Inr ''choices'' \<and>
   sent (reply (proxyRequest (exampleEnv (Inr emptyLocation) (Inl ''unused''))
     (exampleRequest ''a.com''))) = Some (Body ''choices'') \<and>
   statusCode (reply (proxyRequest (exampleEnv (Inr emptyLocation) (Inl ''unused''))
     (exampleRequest ''a.com''))) = 300 \<and>
   map_of (headers (reply (proxyRequest (exampleEnv (Inr emptyLocation) (Inl ''unused''))
     (exampleRequest ''a.com'')))) ''location'' = None"
  unfolding example_fetched
  by (simp add: emptyLocation_def headers_get_def lower_location lower_content_type
      handleResponse_def isRedirect_def truthy_def classifyResponse_def orElse_def
      passThrough_def res_send_simps res_status_simps res_set_simps lower_X_Proxy_By
      copySafeHeaders_def middleware_response safeHeaders_def toLowerCase_def toLowerChar_def)

text \<open>
  C3, amended. For an upstream response with status in [300,400), after a target that
  parsed and a fetch that resolved:
  \<^item> when the Location header is present and not empty and resolves against the target URL,
    the reply is a redirect (status 302) whose Location is \<^verbatim>\<open>/proxy/\<close> followed by the
    resolved absolute URL, and no body of the upstream is sent;
  \<^item> when it is present and not empty and the resolution throws, the reply is the error
    page of the handler;
  \<^item> when it is absent or empty, the response is handled as one that is not a redirect, by
    its content type.
\<close>

theorem redirect_is_translated:
  assumes "params0 req \<noteq> []"
    and "URL_new e (addProtocol (params0 req)) None = Inr url"
    and "fetch e (addProtocol (params0 req)) (fetchInit req url) = Inr response"
    and "300 \<le> status response" and "status response < 400"
  shows
   "(\<forall>location redirectUrl.
       headers_get (upstream_headers response) ''location'' = Some location \<and> location \<noteq> [] \<and>
       URL_new e location (Some (addProtocol (params0 req))) = Inr redirectUrl \<longrightarrow>
         sent (reply (proxyRequest e req)) = Some (RedirectTo (''/proxy/'' @ href redirectUrl)) \<and>
         statusCode (reply (proxyRequest e req)) = 302 \<and>
         map_of (headers (reply (proxyRequest e req))) ''location'' =
           Some (''/proxy/'' @ href redirectUrl)) \<and>
    (\<forall>location message.
       headers_get (upstream_headers response) ''location'' = Some location \<and> location \<noteq> [] \<and>
       URL_new e location (Some (addProtocol (params0 req))) = Inl message \<longrightarrow>
         reply (proxyRequest e req) = proxyError message (cacheMiddleware freshResponse)) \<and>
    (headers_get (upstream_headers response) ''location'' = None \<or>
     headers_get (upstream_headers response) ''location'' = Some [] \<longrightarrow>
       reply (proxyRequest e req) =
         classifyResponse e (addProtocol (params0 req)) response (cacheMiddleware freshResponse))"
  unfolding proxyRequest_fetched [OF assms(1-3)]
  using assms(4,5)
  by (auto simp: handleResponse_def isRedirect_def truthy_def orElse_def res_redirect_simps)

theorem redirect_is_translated_witness:
  "params0 (exampleRequest ''a.com'') \<noteq> [] \<and>
   300 \<le> status loginRedirect \<and> status loginRedirect < 400 \<and>
   headers_get (upstream_headers loginRedirect) ''location'' = Some ''https://a.com/login'' \<and>
   URL_new (exampleEnv (Inr loginRedirect) (Inl ''unused'')) ''https://a.com/login''
     (Some (addProtocol (params0 (exampleRequest ''a.com'')))) =
     Inr \<lparr>href = ''https://a.com/login'', origin = ''https://a.com''\<rparr> \<and>
   sent (reply (proxyRequest (exampleEnv (Inr loginRedirect) (Inl ''unused''))
     (exampleRequest ''a.com''))) = Some (RedirectTo ''/proxy/https://a.com/login'')"
proof -
  let ?e = "exampleEnv (Inr loginRedirect) (Inl ''unused'')"
  let ?req = "exampleRequest ''a.com''"
  have h1: "params0 ?req \<noteq> []" by (simp add: exampleRequest_def)
  have h2: "URL_new ?e (addProtocol (params0 ?req)) None =
      Inr \<lparr>href = ''https://a.com/'', origin = ''https://a.com''\<rparr>"
    unfolding example_target by (rule example_parsed)
  have h3: "fetch ?e (addProtocol (params0 ?req))
      (fetchInit ?req \<lparr>href = ''https://a.com/'', origin = ''https://a.com''\<rparr>) = Inr loginRedirect"
    by (simp add: exampleEnv_def)
  have h4: "300 \<le> status loginRedirect" and h5: "status loginRedirect < 400"
    by (simp_all add: loginRedirect_def)
  have h6: "headers_get (upstream_headers loginRedirect) ''location'' = Some ''https://a.com/login''"
    by (simp add: loginRedirect_def headers_get_def lower_location)
  have h7: "URL_new ?e ''https://a.com/login'' (Some (addProtocol (params0 ?req))) =
      Inr \<lparr>href = ''https://a.com/login'', origin = ''https://a.com''\<rparr>"
    unfolding example_target
    by (simp add: exampleEnv_def exampleURL_def startsWith_def exampleAbsolute_def exampleOrigin_def)
  from redirect_is_translated [OF h1 h2 h3 h4 h5] h6 h7
  have "sent (reply (proxyRequest ?e ?req)) = Some (RedirectTo (''/proxy/'' @ ''https://a.com/login''))"
    by fastforce
  with h1 h4 h5 h6 h7 show ?thesis by simp
qed

section \<open>Responses that are not redirects\<close>

text \<open>
  C6. For a response of the upstream that is not a redirect (the condition of line 134
  fails), whose body was read, and whose Content-Type does not contain \<^verbatim>\<open>text/html\<close>:
  the reply has the status of the upstream, the body of the upstream, the header
  \<^verbatim>\<open>X-Proxy-By: DogeProxy\<close>; each of the five allow-listed headers has the value the upstream
  gave it (when the upstream gave none, it is as the middleware left it); and no other
  header is on the reply.
\<close>

theorem other_content_passes_through:
  assumes "params0 req \<noteq> []"
    and "URL_new e (addProtocol (params0 req)) None = Inr url"
    and "fetch e (addProtocol (params0 req)) (fetchInit req url) = Inr response"
    and "\<not> isRedirect response"
    and "buffer response = Inr buf"
    and "\<not> includes_str (orElse (headers_get (upstream_headers response) ''content-type'') [])
           ''text/html''"
  shows "statusCode (reply (proxyRequest e req)) = status response \<and>
         sent (reply (proxyRequest e req)) = Some (Body buf) \<and>
         map_of (headers (reply (proxyRequest e req))) ''x-proxy-by'' = Some ''DogeProxy'' \<and>
         (\<forall>name. name \<in> set safeHeaders \<longrightarrow>
            map_of (headers (reply (proxyRequest e req))) name =
              (case upstreamHeader (upstream_headers response) name of
                 Some v \<Rightarrow> Some v
               | None \<Rightarrow> map_of (headers (cacheMiddleware freshResponse)) name)) \<and>
         (\<forall>name. name \<notin> set safeHeaders \<longrightarrow> name \<noteq> ''x-proxy-by'' \<longrightarrow>
            map_of (headers (reply (proxyRequest e req))) name = None)"
proof -
  have r: "reply (proxyRequest e req) = passThrough response buf (cacheMiddleware freshResponse)"
    using assms
    by (simp add: proxyRequest_def proxyHandler_def proxyTarget_def handleResponse_def
        classifyResponse_def Let_def)
  have mw: "\<And>name. name \<notin> set safeHeaders \<Longrightarrow>
      map_of (headers (cacheMiddleware freshResponse)) name = None"
    by (auto simp: middleware_response safeHeaders_def)
  have x: "''x-proxy-by'' \<notin> set safeHeaders" by (simp add: safeHeaders_def)
  show ?thesis
    unfolding r passThrough_def
    by (simp add: res_send_simps res_status_simps res_set_simps lower_X_Proxy_By
        copySafeHeaders_status copySafeHeaders_headers x mw)
qed

theorem other_content_passes_through_witness:
  "params0 (exampleRequest ''a.com'') \<noteq> [] \<and>
   \<not> isRedirect download \<and>
   buffer download = Inr ''bytes'' \<and>
   \<not> includes_str (orElse (headers_get (upstream_headers download) ''content-type'') []) ''text/html'' \<and>
   statusCode (reply (proxyRequest (exampleEnv (Inr download) (Inl ''unused''))
     (exampleRequest ''a.com''))) = 206 \<and>
   sent (reply (proxyRequest (exampleEnv (Inr download) (Inl ''unused''))
     (exampleRequest ''a.com''))) = Some (Body ''bytes'') \<and>
   map_of (headers (reply (proxyRequest (exampleEnv (Inr download) (Inl ''unused''))
     (exampleRequest ''a.com'')))) ''etag'' = Some ''v1'' \<and>
   map_of (headers (reply (proxyRequest (exampleEnv (Inr download) (Inl ''unused''))
     (exampleRequest ''a.com'')))) ''server'' = None \<and>
   map_of (headers (reply (proxyRequest (exampleEnv (Inr download) (Inl ''unused''))
     (exampleRequest ''a.com'')))) ''set-cookie'' = None"
proof -
  let ?e = "exampleEnv (Inr download) (Inl ''unused'')"
  let ?req = "exampleRequest ''a.com''"
  have h1: "params0 ?req \<noteq> []" by (simp add: exampleRequest_def)
  have h2: "URL_new ?e (addProtocol (params0 ?req)) None =
      Inr \<lparr>href = ''https://a.com/'', origin = ''https://a.com''\<rparr>"
    unfolding example_target by (rule example_parsed)
  have h3: "fetch ?e (addProtocol (params0 ?req))
      (fetchInit ?req \<lparr>href = ''https://a.com/'', origin = ''https://a.com''\<rparr>) = Inr download"
    by (simp add: exampleEnv_def)
  have h4: "\<not> isRedirect download" by (simp add: isRedirect_def download_def)
  have h5: "buffer download = Inr ''bytes''" by (simp add: download_def)
  have h6: "\<not> includes_str (orElse (headers_get (upstream_headers download) ''content-type'') [])
      ''text/html''"
    by (simp add: download_def headers_get_def lower_content_type orElse_def startsWith_def)
  have etag: "''etag'' \<in> set safeHeaders" "upstreamHeader (upstream_headers download) ''etag'' = Some ''v1''"
    by (simp_all add: safeHeaders_def download_def upstreamHeader_def toLowerCase_def toLowerChar_def)
  have other: "''server'' \<notin> set safeHeaders" "''set-cookie'' \<notin> set safeHeaders"
    by (simp_all add: safeHeaders_def)
  have st: "status download = 206" by (simp add: download_def)
  note main = other_content_passes_through [OF h1 h2 h3 h4 h5 h6]
  from main have a: "statusCode (reply (proxyRequest ?e ?req)) = 206"
    and b: "sent (reply (proxyRequest ?e ?req)) = Some (Body ''bytes'')"
    by (simp_all add: st)
  from main etag have c: "map_of (headers (reply (proxyRequest ?e ?req))) ''etag'' = Some ''v1''"
    by simp
  from main other have d: "map_of (headers (reply (proxyRequest ?e ?req))) ''server'' = None"
    and f: "map_of (headers (reply (proxyRequest ?e ?req))) ''set-cookie'' = None"
    by simp_all
  from h1 h4 h5 h6 a b c d f show ?thesis by blast
qed

text \<open>
  C10, as the claim states it, fails in the fallback of the inner \<^verbatim>\<open>catch\<close> (lines 152-156):
  there the reply carries the Content-Type of the upstream, which is one of the allow-listed
  upstream headers. The upstream below answers 404 with an HTML body and the parser throws.
\<close>

theorem fallback_content_type_counterexample:
  "\<not> isRedirect notFoundPage \<and>
   includes_str (orElse (headers_get (upstream_headers notFoundPage) ''content-type'') [])
     ''text/html'' \<and>
   headers_get (upstream_headers notFoundPage) ''content-type'' =
     Some ''text/html; charset=iso-8859-1'' \<and>
   ''content-type'' \<in> set safeHeaders \<and>
   map_of (headers (reply (proxyRequest (exampleEnv (Inr notFoundPage) (Inl ''parse failed''))
     (exampleRequest ''a.com'')))) ''content-type'' = Some ''text/html; charset=iso-8859-1''"
  unfolding example_fetched
  by (simp add: notFoundPage_def headers_get_def lower_content_type lower_location isRedirect_def
      orElse_def startsWith_def handleResponse_def classifyResponse_def sendHtml_def modifyHtml_def
      exampleEnv_def res_send_simps res_set_simps lower_Content_Type safeHeaders_def)

text \<open>
  C10, amended. For a response of the upstream that is not a redirect, whose body was read,
  and whose Content-Type contains \<^verbatim>\<open>text/html\<close>: the reply has status 200 whatever the
  status of the upstream, and no \<^verbatim>\<open>X-Proxy-By\<close> header. Its headers are the Cache-Control of
  the middleware and a Content-Type: \<^verbatim>\<open>text/html; charset=utf-8\<close> with the rewritten document
  when \<^verbatim>\<open>modifyHtml\<close> returns, the Content-Type of the upstream with the body of the upstream
  when it throws. No other header of the upstream is copied.
\<close>

theorem html_is_sent_with_200:
  assumes "params0 req \<noteq> []"
    and "URL_new e (addProtocol (params0 req)) None = Inr url"
    and "fetch e (addProtocol (params0 req)) (fetchInit req url) = Inr response"
    and "\<not> isRedirect response"
    and "buffer response = Inr buf"
    and "includes_str (orElse (headers_get (upstream_headers response) ''content-type'') [])
           ''text/html''"
  shows "statusCode (reply (proxyRequest e req)) = 200 \<and>
         map_of (headers (reply (proxyRequest e req))) ''x-proxy-by'' = None \<and>
         (case modifyHtml e (decode e buf) (addProtocol (params0 req)) of
            Inr modifiedHtml \<Rightarrow>
              sent (reply (proxyRequest e req)) = Some (Body modifiedHtml) \<and>
              headers (reply (proxyRequest e req)) =
                [(''cache-control'', ''no-cache, no-store, must-revalidate''),
                 (''content-type'', ''text/html; charset=utf-8'')]
          | Inl parseError \<Rightarrow>
              sent (reply (proxyRequest e req)) = Some (Body buf) \<and>
              headers (reply (proxyRequest e req)) =
                [(''cache-control'', ''no-cache, no-store, must-revalidate''),
                 (''content-type'',
                  orElse (headers_get (upstream_headers response) ''content-type'') [])])"
  unfolding proxyRequest_fetched [OF assms(1-3)]
  using assms(4-6)
  by (simp add: handleResponse_def classifyResponse_def Let_def sendHtml_def middleware_response
      res_send_def res_set_def lower_Content_Type split: sum.splits)

theorem html_is_sent_with_200_witness:
  "params0 (exampleRequest ''a.com'') \<noteq> [] \<and>
   \<not> isRedirect notFoundPage \<and>
   status notFoundPage = 404 \<and>
   buffer notFoundPage = Inr ''<h1>Not Found</h1>'' \<and>
   includes_str (orElse (headers_get (upstream_headers notFoundPage) ''content-type'') [])
     ''text/html'' \<and>
   statusCode (reply (proxyRequest (exampleEnv (Inr notFoundPage) (Inr examplePage))
     (exampleRequest ''a.com''))) = 200 \<and>
   headers (reply (proxyRequest (exampleEnv (Inr notFoundPage) (Inr examplePage))
     (exampleRequest ''a.com''))) =
     [(''cache-control'', ''no-cache, no-store, must-revalidate''),
      (''content-type'', ''text/html; charset=utf-8'')] \<and>
   sent (reply (proxyRequest (exampleEnv (Inr notFoundPage) (Inr examplePage))
     (exampleRequest ''a.com''))) =
     Some (Body (concat
       [''<!DOCTYPE html><html><head><base href=\"https://a.com/\" target=\"_blank\">'',
        ''</base><link rel=\"stylesheet\" href=\"/style.css\"></link>'',
        ''<script>// Frame busting removed</script></head><body>'',
        ''<a href=\"/proxy/https://a.com/wiki/Dog\">Dog</a>'',
        ''<a href=\"/proxy/https://b.com/x\" target=\"_blank\" rel=\"noopener noreferrer\">'',
        ''elsewhere</a><a href=\"#section\">below</a><script>console.log(1)</script>'',
        ''<object data=\"/movie.swf\"></object></body></html>'']))"
proof -
  let ?e = "exampleEnv (Inr notFoundPage) (Inr examplePage)"
  let ?req = "exampleRequest ''a.com''"
  have h1: "params0 ?req \<noteq> []" by (simp add: exampleRequest_def)
  have h2: "URL_new ?e (addProtocol (params0 ?req)) None =
      Inr \<lparr>href = ''https://a.com/'', origin = ''https://a.com''\<rparr>"
    unfolding example_target by (rule example_parsed)
  have h3: "fetch ?e (addProtocol (params0 ?req))
      (fetchInit ?req \<lparr>href = ''https://a.com/'', origin = ''https://a.com''\<rparr>) = Inr notFoundPage"
    by (simp add: exampleEnv_def)
  have h4: "\<not> isRedirect notFoundPage" by (simp add: isRedirect_def notFoundPage_def)
  have h5: "buffer notFoundPage = Inr ''<h1>Not Found</h1>''" by (simp add: notFoundPage_def)
  have h6: "includes_str (orElse (headers_get (upstream_headers notFoundPage) ''content-type'') [])
      ''text/html''"
    by (simp add: notFoundPage_def headers_get_def lower_content_type orElse_def startsWith_def)
  have st: "status notFoundPage = 404" by (simp add: notFoundPage_def)
  note main = html_is_sent_with_200 [OF h1 h2 h3 h4 h5 h6, unfolded example_target example_modifyHtml]
  from main have "statusCode (reply (proxyRequest ?e ?req)) = 200"
    and "headers (reply (proxyRequest ?e ?req)) =
      [(''cache-control'', ''no-cache, no-store, must-revalidate''),
       (''content-type'', ''text/html; charset=utf-8'')]"
    and "sent (reply (proxyRequest ?e ?req)) =
      Some (Body (concat
       [''<!DOCTYPE html><html><head><base href=\"https://a.com/\" target=\"_blank\">'',
        ''</base><link rel=\"stylesheet\" href=\"/style.css\"></link>'',
        ''<script>// Frame busting removed</script></head><body>'',
        ''<a href=\"/proxy/https://a.com/wiki/Dog\">Dog</a>'',
        ''<a href=\"/proxy/https://b.com/x\" target=\"_blank\" rel=\"noopener noreferrer\">'',
        ''elsewhere</a><a href=\"#section\">below</a><script>console.log(1)</script>'',
        ''<object data=\"/movie.swf\"></object></body></html>'']))"
    by simp_all
  with h1 h4 h5 h6 st show ?thesis by blast
qed
section \<open>The link loop\<close>

text \<open>
  The link loop on an element that one of the selectors selects, for the attribute that the
  callback reads (lines 51-52: \<^verbatim>\<open>href\<close> for \<^verbatim>\<open>A\<close>, \<^verbatim>\<open>action\<close> for \<^verbatim>\<open>FORM\<close>, \<^verbatim>\<open>src\<close> for every
  other tag). When the value of that attribute is not skipped and resolves, the attribute
  becomes \<^verbatim>\<open>/proxy/\<close> followed by the resolved URL, \<^verbatim>\<open>target\<close> and \<^verbatim>\<open>rel\<close> are set when the
  origins differ, and nothing else changes. When the value is skipped, no attribute changes.
\<close>

lemma read_attribute_rewritten:
  assumes "rewriteLinks e targetUrl url doc = Inr linked"
    and "nodeAt doc p = Some (Element h ln as cs)"
    and "\<exists>selector \<in> set linkSelectors. matches selector (Element h ln as cs)"
    and "map_of as (attrOf (Element h ln as cs)) = Some originalValue"
    and "originalValue \<noteq> []"
    and "\<not> startsWith originalValue ''#''"
    and "\<not> startsWith originalValue ''mailto:''"
    and "\<not> startsWith originalValue ''tel:''"
    and "\<not> startsWith originalValue ''javascript:''"
    and "URL_new e originalValue (Some targetUrl) = Inr resolved"
    and "URL_new e (href resolved) None = Inr reparsed"
  shows "\<exists>as' cs'.
     nodeAt linked p = Some (Element h ln as' cs') \<and>
     map_of as' (attrOf (Element h ln as cs)) = Some (PROXY_PREFIX @ href resolved) \<and>
     (origin reparsed \<noteq> origin url \<longrightarrow>
        map_of as' ''target'' = Some ''_blank'' \<and>
        map_of as' ''rel'' = Some ''noopener noreferrer'' \<and>
        (\<forall>a. a \<noteq> attrOf (Element h ln as cs) \<and> a \<noteq> ''target'' \<and> a \<noteq> ''rel'' \<longrightarrow>
           map_of as' a = map_of as a)) \<and>
     (origin reparsed = origin url \<longrightarrow>
        (\<forall>a. a \<noteq> attrOf (Element h ln as cs) \<longrightarrow> map_of as' a = map_of as a))"
proof -
  let ?el = "Element h ln as cs"
  have attr: "attrOf ?el \<noteq> ''target''" "attrOf ?el \<noteq> ''rel''"
    by (simp_all add: attrOf_def)
  have notskipped: "\<not> skipped (Some originalValue)"
    using assms(5-9) by (simp add: skipped_def)
  let ?as' = "attributes (rewriteElement e targetUrl url ?el)"
  have as': "?as' =
      AList.update (attrOf ?el) (PROXY_PREFIX @ href resolved)
        (if origin reparsed \<noteq> origin url
         then AList.update ''rel'' ''noopener noreferrer'' (AList.update ''target'' ''_blank'' as)
         else as)"
    using assms(4,10,11) notskipped by (simp add: rewriteElement_def Let_def)
  have at: "nodeAt linked p = Some (Element h ln ?as' (linkPass e targetUrl url cs))"
    unfolding rewriteLinks_Inr [OF assms(1)]
    using nodeAt_linkPass [OF assms(2), of e targetUrl url] assms(3) by simp
  show ?thesis
    unfolding at using attr by (auto simp: as' update_conv')
qed

lemma skipped_read_attribute_unchanged:
  assumes "rewriteLinks e targetUrl url doc = Inr linked"
    and "nodeAt doc p = Some (Element h ln as cs)"
    and "map_of as (attrOf (Element h ln as cs)) = None \<or>
         (\<exists>v. map_of as (attrOf (Element h ln as cs)) = Some v \<and>
            (v = [] \<or> startsWith v ''#'' \<or> startsWith v ''mailto:'' \<or> startsWith v ''tel:'' \<or>
             startsWith v ''javascript:''))"
  shows "\<exists>cs'. nodeAt linked p = Some (Element h ln as cs')"
proof -
  have "skipped (getAttribute (Element h ln as cs) (attrOf (Element h ln as cs)))"
    using assms(3) by (auto simp: skipped_def)
  then have "rewriteElement e targetUrl url (Element h ln as cs) = Element h ln as cs"
    by (simp add: rewriteElement_def Let_def)
  then show ?thesis
    unfolding rewriteLinks_Inr [OF assms(1)]
    using nodeAt_linkPass [OF assms(2), of e targetUrl url] by simp
qed

text \<open>
  C2. The selectors \<^verbatim>\<open>link[href]\<close> and \<^verbatim>\<open>object[data]\<close> pick the elements by the attribute
  named in the claim, but lines 51-52 choose \<^verbatim>\<open>src\<close> for every tag other than \<^verbatim>\<open>A\<close> and
  \<^verbatim>\<open>FORM\<close>. On the example page, fetched from \<^verbatim>\<open>https://en.wikipedia.org/\<close>, the
  \<^verbatim>\<open>href\<close> of the \<^verbatim>\<open>link\<close> element and the \<^verbatim>\<open>data\<close> of the \<^verbatim>\<open>object\<close> element resolve
  against the target, the link loop returns, and both elements leave it as they entered it.
\<close>

theorem link_href_and_object_data_unrewritten:
  "nodeAt examplePage [1, 0, 0] =
     Some (Element True ''link'' [(''rel'', ''stylesheet''), (''href'', ''/style.css'')] []) \<and>
   attrOf (Element True ''link'' [(''rel'', ''stylesheet''), (''href'', ''/style.css'')] []) = ''src'' \<and>
   URL_new (exampleEnv (Inl []) (Inr examplePage)) ''/style.css'' (Some ''https://en.wikipedia.org/'') =
     Inr \<lparr>href = ''https://en.wikipedia.org/style.css'', origin = ''https://en.wikipedia.org''\<rparr> \<and>
   rewriteLinks (exampleEnv (Inl []) (Inr examplePage)) ''https://en.wikipedia.org/''
       wikipedia examplePage = Inr examplePageLinked \<and>
   nodeAt examplePageLinked [1, 0, 0] =
     Some (Element True ''link'' [(''rel'', ''stylesheet''), (''href'', ''/style.css'')] []) \<and>
   nodeAt examplePage [1, 1, 4] = Some (Element True ''object'' [(''data'', ''/movie.swf'')] []) \<and>
   attrOf (Element True ''object'' [(''data'', ''/movie.swf'')] []) = ''src'' \<and>
   URL_new (exampleEnv (Inl []) (Inr examplePage)) ''/movie.swf'' (Some ''https://en.wikipedia.org/'') =
     Inr \<lparr>href = ''https://en.wikipedia.org/movie.swf'', origin = ''https://en.wikipedia.org''\<rparr> \<and>
   nodeAt examplePageLinked [1, 1, 4] =
     Some (Element True ''object'' [(''data'', ''/movie.swf'')] [])"
proof -
  have a1: "attrOf (Element True ''link'' [(''rel'', ''stylesheet''), (''href'', ''/style.css'')] []) =
      ''src''"
    and a2: "attrOf (Element True ''object'' [(''data'', ''/movie.swf'')] []) = ''src''"
    by (simp_all add: attrOf_by_tag)
  have l1: "nodeAt examplePageLinked [1, 0, 0] =
      Some (Element True ''link'' [(''rel'', ''stylesheet''), (''href'', ''/style.css'')] [])"
    and l2: "nodeAt examplePageLinked [1, 1, 4] =
      Some (Element True ''object'' [(''data'', ''/movie.swf'')] [])"
    by (simp_all add: examplePageLinked_def)
  show ?thesis
    by (intro conjI)
      (rule examplePage_nodes(1) a1 example_resolution(1) example_rewriteLinks l1
        examplePage_nodes(4) a2 example_resolution(2) l2)+
qed

text \<open>
  C1, for the elements the rewriter processes and the attribute relevant to each (\<^verbatim>\<open>href\<close>
  for a \<^verbatim>\<open>link\<close> element), fails through the same lines 51-52. The example page is fetched
  from \<^verbatim>\<open>https://a.com\<close>. Its \<^verbatim>\<open>link\<close> element is selected by \<^verbatim>\<open>link[href]\<close>; the value
  \<^verbatim>\<open>/style.css\<close> of its \<^verbatim>\<open>href\<close> is not empty, starts with none of \<^verbatim>\<open>#\<close>, \<^verbatim>\<open>mailto:\<close>,
  \<^verbatim>\<open>tel:\<close>, \<^verbatim>\<open>javascript:\<close>, and resolves against the target to the absolute URL
  \<^verbatim>\<open>https://a.com/style.css\<close>. \<^verbatim>\<open>modifyHtml\<close> returns the serialization of a document in
  which the \<^verbatim>\<open>href\<close> of the element is still \<^verbatim>\<open>/style.css\<close>, not
  \<^verbatim>\<open>/proxy/https://a.com/style.css\<close>; the anchors of the same page are rewritten as the
  claim says.
\<close>

theorem link_href_unrewritten_in_served_document:
  "nodeAt examplePage [1, 0, 0] =
     Some (Element True ''link'' [(''rel'', ''stylesheet''), (''href'', ''/style.css'')] []) \<and>
   matches (TagAttr ''link'' ''href'')
     (Element True ''link'' [(''rel'', ''stylesheet''), (''href'', ''/style.css'')] []) \<and>
   \<not> skipped (Some ''/style.css'') \<and>
   URL_new (exampleEnv (Inl []) (Inr examplePage)) ''/style.css'' (Some ''https://a.com'') =
     Inr \<lparr>href = ''https://a.com/style.css'', origin = ''https://a.com''\<rparr> \<and>
   JSDOM_new (exampleEnv (Inl []) (Inr examplePage)) [] ''https://a.com'' = Inr examplePage \<and>
   modifyDocument (exampleEnv (Inl []) (Inr examplePage)) ''https://a.com'' examplePage =
     Inr examplePageServed \<and>
   modifyHtml (exampleEnv (Inl []) (Inr examplePage)) [] ''https://a.com'' =
     serialize (exampleEnv (Inl []) (Inr examplePage)) examplePageServed \<and>
   nodeAt examplePageServed [1, 0, 1] =
     Some (Element True ''link'' [(''rel'', ''stylesheet''), (''href'', ''/style.css'')] []) \<and>
   nodeAt examplePageServed [1, 1, 0] =
     Some (Element True ''a'' [(''href'', ''/proxy/https://a.com/wiki/Dog'')] [Text ''Dog'']) \<and>
   nodeAt examplePageServed [1, 1, 1] =
     Some (Element True ''a''
       [(''href'', ''/proxy/https://b.com/x''), (''target'', ''_blank''),
        (''rel'', ''noopener noreferrer'')]
       [Text ''elsewhere''])"
proof -
  let ?e = "exampleEnv (Inl []) (Inr examplePage)"
  have sel: "matches (TagAttr ''link'' ''href'')
      (Element True ''link'' [(''rel'', ''stylesheet''), (''href'', ''/style.css'')] [])"
    by simp
  have ns: "\<not> skipped (Some ''/style.css'')"
    by (simp add: skipped_def startsWith_def)
  have j: "JSDOM_new ?e [] ''https://a.com'' = Inr examplePage"
    by (simp add: exampleEnv_def)
  have m: "modifyDocument ?e ''https://a.com'' examplePage = Inr examplePageServed"
    by (rule example_modifyDocument)
  have out: "modifyHtml ?e [] ''https://a.com'' = serialize ?e examplePageServed"
    by (simp add: modifyHtml_def j m)
  have s1: "nodeAt examplePageServed [1, 0, 1] =
      Some (Element True ''link'' [(''rel'', ''stylesheet''), (''href'', ''/style.css'')] [])"
    and s2: "nodeAt examplePageServed [1, 1, 0] =
      Some (Element True ''a'' [(''href'', ''/proxy/https://a.com/wiki/Dog'')] [Text ''Dog''])"
    and s3: "nodeAt examplePageServed [1, 1, 1] =
      Some (Element True ''a''
        [(''href'', ''/proxy/https://b.com/x''), (''target'', ''_blank''),
         (''rel'', ''noopener noreferrer'')]
        [Text ''elsewhere''])"
    by (simp_all add: examplePageServed_def)
  show ?thesis
    by (intro conjI)
      (rule examplePage_nodes(1) sel ns example_resolution(3) j m out s1 s2 s3)+
qed

text \<open>
  C5, for the attribute relevant to each element, fails through the same lines 51-52. The
  page below is fetched from \<^verbatim>\<open>https://a.com\<close>. Its \<^verbatim>\<open>link\<close> element is selected by
  \<^verbatim>\<open>link[href]\<close>, and the value \<^verbatim>\<open>#top\<close> of its \<^verbatim>\<open>href\<close> begins with \<^verbatim>\<open>#\<close>: the element is one
  the claim wants left alone. The callback reads its \<^verbatim>\<open>src\<close> instead, which is
  \<^verbatim>\<open>https://b.com/x\<close>, and \<^verbatim>\<open>modifyHtml\<close> returns the serialization of a document in which
  the element has \<^verbatim>\<open>target="_blank"\<close>, its \<^verbatim>\<open>rel\<close> replaced by \<^verbatim>\<open>noopener noreferrer\<close>, and its
  \<^verbatim>\<open>src\<close> rewritten.
\<close>

theorem fragment_href_link_gets_target_and_rel:
  "nodeAt fragmentLinkPage [1, 0, 0] =
     Some (Element True ''link''
       [(''rel'', ''stylesheet''), (''href'', ''#top''), (''src'', ''https://b.com/x'')] []) \<and>
   matches (TagAttr ''link'' ''href'')
     (Element True ''link''
       [(''rel'', ''stylesheet''), (''href'', ''#top''), (''src'', ''https://b.com/x'')] []) \<and>
   startsWith ''#top'' ''#'' \<and>
   skipped (Some ''#top'') \<and>
   JSDOM_new (exampleEnv (Inl []) (Inr fragmentLinkPage)) [] ''https://a.com'' =
     Inr fragmentLinkPage \<and>
   modifyDocument (exampleEnv (Inl []) (Inr fragmentLinkPage)) ''https://a.com'' fragmentLinkPage =
     Inr fragmentLinkPageServed \<and>
   modifyHtml (exampleEnv (Inl []) (Inr fragmentLinkPage)) [] ''https://a.com'' =
     serialize (exampleEnv (Inl []) (Inr fragmentLinkPage)) fragmentLinkPageServed \<and>
   nodeAt fragmentLinkPageServed [1, 0, 1] =
     Some (Element True ''link''
       [(''rel'', ''noopener noreferrer''), (''href'', ''#top''),
        (''src'', ''/proxy/https://b.com/x''), (''target'', ''_blank'')] [])"
proof -
  let ?e = "exampleEnv (Inl []) (Inr fragmentLinkPage)"
  have n: "nodeAt fragmentLinkPage [1, 0, 0] =
      Some (Element True ''link''
        [(''rel'', ''stylesheet''), (''href'', ''#top''), (''src'', ''https://b.com/x'')] [])"
    by (simp add: fragmentLinkPage_def)
  have sel: "matches (TagAttr ''link'' ''href'')
      (Element True ''link''
        [(''rel'', ''stylesheet''), (''href'', ''#top''), (''src'', ''https://b.com/x'')] [])"
    by simp
  have sw: "startsWith ''#top'' ''#''"
    by (simp add: startsWith_def)
  have sk: "skipped (Some ''#top'')"
    by (simp add: skipped_def startsWith_def)
  have j: "JSDOM_new ?e [] ''https://a.com'' = Inr fragmentLinkPage"
    by (simp add: exampleEnv_def)
  have m: "modifyDocument ?e ''https://a.com'' fragmentLinkPage = Inr fragmentLinkPageServed"
    by (rule fragmentLink_modifyDocument)
  have out: "modifyHtml ?e [] ''https://a.com'' = serialize ?e fragmentLinkPageServed"
    by (simp add: modifyHtml_def j m)
  have s1: "nodeAt fragmentLinkPageServed [1, 0, 1] =
      Some (Element True ''link''
        [(''rel'', ''noopener noreferrer''), (''href'', ''#top''),
         (''src'', ''/proxy/https://b.com/x''), (''target'', ''_blank'')] [])"
    by (simp add: fragmentLinkPageServed_def)
  show ?thesis
    by (intro conjI) (rule n sel sw sk j m out s1)+
qed

section \<open>The script loop\<close>




end
